theory Spec2Isabelle
  imports Main
begin

section \<open>The cleanup\_jobs management command of AWX\<close>

text \<open>
  A shallow embedding of \<^verbatim>\<open>awx/main/management/commands/cleanup_jobs.py\<close>:
  the seven \<^verbatim>\<open>cleanup_*\<close> methods of \<^verbatim>\<open>Command\<close>, \<^verbatim>\<open>handle_noargs\<close> and the
  \<^verbatim>\<open>transaction.atomic\<close> block around it. The database is passed explicitly and
  returned updated; exceptions are values of a sum type. Logging of single records is
  left out, and with it \<^verbatim>\<open>init_logging\<close> and the verbosity option; the summary line
  that \<^verbatim>\<open>handle_noargs\<close> logs per model is kept as data. The only change the command
  makes to the database is the deletion of rows, so the two context managers that
  silence signal handlers have nothing to restore in this model.
\<close>

subsection \<open>Time\<close>

text \<open>
  A \<^verbatim>\<open>datetime\<close> is the number of microseconds since \<^verbatim>\<open>datetime.min\<close>
  (0001-01-01 00:00:00). Python's \<^verbatim>\<open>datetime\<close> covers the years 1 to 9999, which
  are 3652059 days; \<^verbatim>\<open>timedelta\<close> accepts at most 999999999 days in either direction.
  Both raise \<^verbatim>\<open>OverflowError\<close> outside their range, which is \<open>None\<close> here.
\<close>

definition us_per_day :: int where
  "us_per_day = 86400000000"

definition datetime_span :: int where
  "datetime_span = 3652059 * us_per_day"

definition timedelta :: "int \<Rightarrow> int option" where
  "timedelta d = (if \<bar>d\<bar> \<le> 999999999 then Some (d * us_per_day) else None)"

definition datetime_sub :: "int \<Rightarrow> int \<Rightarrow> int option" where
  "datetime_sub t delta =
     (let r = t - delta in if 0 \<le> r \<and> r < datetime_span then Some r else None)"

subsection \<open>Records of the database\<close>

text \<open>
  Every model the command touches has a primary key, a \<^verbatim>\<open>status\<close> string and a
  \<^verbatim>\<open>created\<close> timestamp. A project update also reaches its project, an inventory
  update its inventory source; both parents carry the \<^verbatim>\<open>current_update\<close> and
  \<^verbatim>\<open>last_update\<close> pointers, which are primary keys of updates or \<^verbatim>\<open>None\<close>.
  Django compares model instances by primary key, so \<^verbatim>\<open>pu in (a, b)\<close> is a
  comparison of keys.
\<close>

record row =
  pk :: nat
  status :: string
  created :: int

record unified_job_template =
  current_update :: "nat option"
  last_update :: "nat option"

record project = unified_job_template +
  scm_type :: string

record inventory_source = unified_job_template +
  source :: string

record project_update = row +
  project :: project

record inventory_update = row +
  inventory_source :: inventory_source

record db =
  jobs :: "row list"
  ad_hoc_commands :: "row list"
  project_updates :: "project_update list"
  inventory_updates :: "inventory_update list"
  system_jobs :: "row list"
  workflow_jobs :: "row list"
  notifications :: "row list"

text \<open>\<^verbatim>\<open>obj.delete()\<close> removes the row with the object's primary key from its table.\<close>

definition delete_row :: "'a row_scheme \<Rightarrow> 'a row_scheme list \<Rightarrow> 'a row_scheme list" where
  "delete_row x rows = filter (\<lambda>r. pk r \<noteq> pk x) rows"

definition delete_job :: "row \<Rightarrow> db \<Rightarrow> db" where
  "delete_job x d = d\<lparr>jobs := delete_row x (jobs d)\<rparr>"

definition delete_ad_hoc_command :: "row \<Rightarrow> db \<Rightarrow> db" where
  "delete_ad_hoc_command x d = d\<lparr>ad_hoc_commands := delete_row x (ad_hoc_commands d)\<rparr>"

definition delete_project_update :: "project_update \<Rightarrow> db \<Rightarrow> db" where
  "delete_project_update x d = d\<lparr>project_updates := delete_row x (project_updates d)\<rparr>"

definition delete_inventory_update :: "inventory_update \<Rightarrow> db \<Rightarrow> db" where
  "delete_inventory_update x d = d\<lparr>inventory_updates := delete_row x (inventory_updates d)\<rparr>"

definition delete_system_job :: "row \<Rightarrow> db \<Rightarrow> db" where
  "delete_system_job x d = d\<lparr>system_jobs := delete_row x (system_jobs d)\<rparr>"

definition delete_workflow_job :: "row \<Rightarrow> db \<Rightarrow> db" where
  "delete_workflow_job x d = d\<lparr>workflow_jobs := delete_row x (workflow_jobs d)\<rparr>"

definition delete_notification :: "row \<Rightarrow> db \<Rightarrow> db" where
  "delete_notification x d = d\<lparr>notifications := delete_row x (notifications d)\<rparr>"

subsection \<open>The command object\<close>

text \<open>The attributes of \<^verbatim>\<open>self\<close> that \<^verbatim>\<open>handle_noargs\<close> sets and the cleanup methods read.\<close>

record command =
  days :: int
  dry_run :: bool
  cutoff :: int

subsection \<open>The branches of a cleanup loop\<close>

text \<open>
  Each loop body is one \<^verbatim>\<open>if\<close>/\<^verbatim>\<open>elif\<close> chain. The chain's branches are named:
  the status test, the test of the parent's pointers, the test of the age, and the
  final \<^verbatim>\<open>else\<close>, which deletes.
\<close>

datatype decision = SkipActive | SkipProtected | SkipRecent | Eligible

definition job_decision :: "command \<Rightarrow> row \<Rightarrow> decision" where
  "job_decision self job =
     (if status job \<in> set [''pending'', ''waiting'', ''running''] then SkipActive
      else if created job \<ge> cutoff self then SkipRecent
      else Eligible)"

definition ad_hoc_command_decision :: "command \<Rightarrow> row \<Rightarrow> decision" where
  "ad_hoc_command_decision self ad_hoc_command =
     (if status ad_hoc_command \<in> set [''pending'', ''waiting'', ''running''] then SkipActive
      else if created ad_hoc_command \<ge> cutoff self then SkipRecent
      else Eligible)"

definition project_update_decision :: "command \<Rightarrow> project_update \<Rightarrow> decision" where
  "project_update_decision self pu =
     (if status pu \<in> set [''pending'', ''waiting'', ''running''] then SkipActive
      else if Some (pk pu) \<in> set [current_update (project pu), last_update (project pu)]
              \<and> scm_type (project pu) \<noteq> [] then SkipProtected
      else if created pu \<ge> cutoff self then SkipRecent
      else Eligible)"

definition inventory_update_decision :: "command \<Rightarrow> inventory_update \<Rightarrow> decision" where
  "inventory_update_decision self iu =
     (if status iu \<in> set [''pending'', ''waiting'', ''running''] then SkipActive
      else if Some (pk iu) \<in> set [current_update (inventory_source iu),
                                    last_update (inventory_source iu)]
              \<and> source (inventory_source iu) \<noteq> [] then SkipProtected
      else if created iu \<ge> cutoff self then SkipRecent
      else Eligible)"

definition management_job_decision :: "command \<Rightarrow> row \<Rightarrow> decision" where
  "management_job_decision self sj =
     (if status sj \<in> set [''pending'', ''waiting'', ''running''] then SkipActive
      else if created sj \<ge> cutoff self then SkipRecent
      else Eligible)"

definition workflow_job_decision :: "command \<Rightarrow> row \<Rightarrow> decision" where
  "workflow_job_decision self workflow_job =
     (if status workflow_job \<in> set [''pending'', ''waiting'', ''running''] then SkipActive
      else if created workflow_job \<ge> cutoff self then SkipRecent
      else Eligible)"

definition notification_decision :: "command \<Rightarrow> row \<Rightarrow> decision" where
  "notification_decision self notification =
     (if status notification \<in> set [''pending''] then SkipActive
      else if created notification \<ge> cutoff self then SkipRecent
      else Eligible)"

text \<open>
  What a branch does to the loop's state, which is the database and the two counters
  \<^verbatim>\<open>skipped\<close> and \<^verbatim>\<open>deleted\<close>: the three skipping branches add one to
  \<^verbatim>\<open>skipped\<close>; the last branch deletes unless \<^verbatim>\<open>self.dry_run\<close> and adds one to
  \<^verbatim>\<open>deleted\<close>.
\<close>

fun tally :: "command \<Rightarrow> decision \<Rightarrow> (db \<Rightarrow> db) \<Rightarrow> db \<times> nat \<times> nat \<Rightarrow> db \<times> nat \<times> nat" where
  "tally self Eligible delete (d, skipped, deleted) =
     ((if \<not> dry_run self then delete d else d), skipped, deleted + 1)"
| "tally self _ delete (d, skipped, deleted) = (d, skipped + 1, deleted)"

subsection \<open>The cleanup methods\<close>

text \<open>
  Each method iterates over the query set as it was when the loop began and returns
  \<^verbatim>\<open>(skipped, deleted)\<close>; here the database comes first in the result.
\<close>

definition cleanup_jobs :: "command \<Rightarrow> db \<Rightarrow> db \<times> nat \<times> nat" where
  "cleanup_jobs self d =
     fold (\<lambda>job. tally self (job_decision self job) (delete_job job)) (jobs d) (d, 0, 0)"

definition cleanup_ad_hoc_commands :: "command \<Rightarrow> db \<Rightarrow> db \<times> nat \<times> nat" where
  "cleanup_ad_hoc_commands self d =
     fold (\<lambda>c. tally self (ad_hoc_command_decision self c) (delete_ad_hoc_command c))
       (ad_hoc_commands d) (d, 0, 0)"

definition cleanup_project_updates :: "command \<Rightarrow> db \<Rightarrow> db \<times> nat \<times> nat" where
  "cleanup_project_updates self d =
     fold (\<lambda>pu. tally self (project_update_decision self pu) (delete_project_update pu))
       (project_updates d) (d, 0, 0)"

definition cleanup_inventory_updates :: "command \<Rightarrow> db \<Rightarrow> db \<times> nat \<times> nat" where
  "cleanup_inventory_updates self d =
     fold (\<lambda>iu. tally self (inventory_update_decision self iu) (delete_inventory_update iu))
       (inventory_updates d) (d, 0, 0)"

definition cleanup_management_jobs :: "command \<Rightarrow> db \<Rightarrow> db \<times> nat \<times> nat" where
  "cleanup_management_jobs self d =
     fold (\<lambda>sj. tally self (management_job_decision self sj) (delete_system_job sj))
       (system_jobs d) (d, 0, 0)"

definition cleanup_workflow_jobs :: "command \<Rightarrow> db \<Rightarrow> db \<times> nat \<times> nat" where
  "cleanup_workflow_jobs self d =
     fold (\<lambda>w. tally self (workflow_job_decision self w) (delete_workflow_job w))
       (workflow_jobs d) (d, 0, 0)"

definition cleanup_notifications :: "command \<Rightarrow> db \<Rightarrow> db \<times> nat \<times> nat" where
  "cleanup_notifications self d =
     fold (\<lambda>n. tally self (notification_decision self n) (delete_notification n))
       (notifications d) (d, 0, 0)"

subsection \<open>The entry point\<close>

text \<open>
  The options are a dictionary from option names to integers and booleans, read with
  \<^verbatim>\<open>options.get(key, default)\<close> and converted with \<^verbatim>\<open>int\<close> and \<^verbatim>\<open>bool\<close>.
\<close>

datatype pyval = PyInt int | PyBool bool

fun py_int :: "pyval \<Rightarrow> int" where
  "py_int (PyInt i) = i"
| "py_int (PyBool b) = (if b then 1 else 0)"

fun py_bool :: "pyval \<Rightarrow> bool" where
  "py_bool (PyInt i) = (i \<noteq> 0)"
| "py_bool (PyBool b) = b"

definition get :: "(string \<rightharpoonup> pyval) \<Rightarrow> string \<Rightarrow> pyval \<Rightarrow> pyval" where
  "get options k dflt = (case options k of None \<Rightarrow> dflt | Some v \<Rightarrow> v)"

datatype error = CommandError string | AttributeError string | OperationalError

definition model_names :: "string list" where
  "model_names = [''jobs'', ''ad_hoc_commands'', ''project_updates'', ''inventory_updates'',
                  ''management_jobs'', ''workflow_jobs'', ''notifications'']"

text \<open>\<^verbatim>\<open>getattr(self, 'cleanup_%s' % m)\<close>: the method of that name, if the class has one.\<close>

definition cleanup_method :: "string \<Rightarrow> (command \<Rightarrow> db \<Rightarrow> db \<times> nat \<times> nat) option" where
  "cleanup_method m =
     (if m = ''jobs'' then Some cleanup_jobs
      else if m = ''ad_hoc_commands'' then Some cleanup_ad_hoc_commands
      else if m = ''project_updates'' then Some cleanup_project_updates
      else if m = ''inventory_updates'' then Some cleanup_inventory_updates
      else if m = ''management_jobs'' then Some cleanup_management_jobs
      else if m = ''workflow_jobs'' then Some cleanup_workflow_jobs
      else if m = ''notifications'' then Some cleanup_notifications
      else None)"

text \<open>
  The line logged at level 99 for one model: the model's name with underscores replaced
  by spaces, whether the wording is the dry-run one, and the two counts.
\<close>

record summary =
  label :: string
  would_be :: bool
  n_deleted :: nat
  n_skipped :: nat

definition replace_underscores :: "string \<Rightarrow> string" where
  "replace_underscores m = map (\<lambda>c. if c = CHR ''_'' then CHR '' '' else c) m"

text \<open>The loop over \<^verbatim>\<open>model_names\<close> inside the two context managers.\<close>

fun run_models :: "command \<Rightarrow> string set \<Rightarrow> string list \<Rightarrow> db \<times> summary list
                    \<Rightarrow> error + db \<times> summary list" where
  "run_models self models_to_cleanup [] (d, out) = Inr (d, out)"
| "run_models self models_to_cleanup (m # ms) (d, out) =
     (if m \<in> models_to_cleanup then
        (case cleanup_method m of
           None \<Rightarrow> Inl (AttributeError (''cleanup_'' @ m))
         | Some cleanup \<Rightarrow>
             (case cleanup self d of
                (d', skipped, deleted) \<Rightarrow>
                  run_models self models_to_cleanup ms
                    (d', out @ [\<lparr>label = replace_underscores m, would_be = dry_run self,
                                 n_deleted = deleted, n_skipped = skipped\<rparr>])))
      else run_models self models_to_cleanup ms (d, out))"

text \<open>
  \<^verbatim>\<open>handle_noargs\<close> takes the options, the reading of the clock (\<^verbatim>\<open>now()\<close>) and
  the database. The \<^verbatim>\<open>try\<close> block is the subtraction of the \<^verbatim>\<open>timedelta\<close> from
  the clock's reading; either step can raise \<^verbatim>\<open>OverflowError\<close>, which becomes the
  \<^verbatim>\<open>CommandError\<close>. A successful run returns the command object with the attributes
  it has set, the database and the summaries in the order they were logged. This is
  the method as its body is written; the decorator \<^verbatim>\<open>@transaction.atomic\<close> around
  it follows.
\<close>

definition handle_noargs :: "(string \<rightharpoonup> pyval) \<Rightarrow> int \<Rightarrow> db
                              \<Rightarrow> error + command \<times> db \<times> summary list" where
  "handle_noargs options now d =
     (let days' = py_int (get options ''days'' (PyInt 90));
          dry_run' = py_bool (get options ''dry_run'' (PyBool False))
      in case Option.bind (timedelta days') (datetime_sub now) of
           None \<Rightarrow> Inl (CommandError
             ''--days specified is too large. Try something less than 99999 (about 270 years).'')
         | Some cutoff' \<Rightarrow>
             (let self = \<lparr>days = days', dry_run = dry_run', cutoff = cutoff'\<rparr>;
                  models_to_cleanup =
                    fold (\<lambda>m s. if py_bool (get options (''only_'' @ m) (PyBool False))
                                 then insert m s else s) model_names {};
                  models_to_cleanup =
                    (if models_to_cleanup = {} then models_to_cleanup \<union> set model_names
                     else models_to_cleanup)
              in case run_models self models_to_cleanup model_names (d, []) of
                   Inl e \<Rightarrow> Inl e
                 | Inr (d', out) \<Rightarrow> Inr (self, d', out)))"

subsection \<open>The transaction around the entry point\<close>

text \<open>
  \<^verbatim>\<open>handle_noargs\<close> is decorated with \<^verbatim>\<open>@transaction.atomic\<close>. Entering Django's
  atomic block opens the database connection if there is none, which raises
  \<^verbatim>\<open>OperationalError\<close> when the database cannot be reached, and begins a
  transaction; only then does the body run. Leaving the block commits when the body
  returned and rolls back when it raised, so that the database is as it was. What the
  connection is asked to do is kept as a list, next to the database and the result.
\<close>

datatype storage_op = Connect | Begin | Commit | Rollback

definition atomic_handle_noargs :: "(string \<rightharpoonup> pyval) \<Rightarrow> int \<Rightarrow> bool \<Rightarrow> db
    \<Rightarrow> storage_op list \<times> db \<times> (error + command \<times> summary list)" where
  "atomic_handle_noargs options now reachable d =
     (if \<not> reachable then ([Connect], d, Inl OperationalError)
      else case handle_noargs options now d of
             Inl e \<Rightarrow> ([Connect, Begin, Rollback], d, Inl e)
           | Inr (self, d', out) \<Rightarrow> ([Connect, Begin, Commit], d', Inr (self, out)))"

subsection \<open>Notions used to state the properties\<close>

text \<open>Primary keys are unique within each table.\<close>

definition unique_pks :: "db \<Rightarrow> bool" where
  "unique_pks d \<longleftrightarrow>
     distinct (map pk (jobs d)) \<and> distinct (map pk (ad_hoc_commands d)) \<and>
     distinct (map pk (project_updates d)) \<and> distinct (map pk (inventory_updates d)) \<and>
     distinct (map pk (system_jobs d)) \<and> distinct (map pk (workflow_jobs d)) \<and>
     distinct (map pk (notifications d))"

text \<open>The rows left in a table once every row chosen by \<open>E\<close> has been deleted by key.\<close>

definition purge :: "('a row_scheme \<Rightarrow> bool) \<Rightarrow> 'a row_scheme list \<Rightarrow> 'a row_scheme list" where
  "purge E rows = filter (\<lambda>x. pk x \<notin> set (map pk (filter E rows))) rows"

text \<open>The number of records of the model named \<open>m\<close>, and how many of them take the deleting branch.\<close>

definition record_count :: "string \<Rightarrow> db \<Rightarrow> nat" where
  "record_count m d =
     (if m = ''jobs'' then length (jobs d)
      else if m = ''ad_hoc_commands'' then length (ad_hoc_commands d)
      else if m = ''project_updates'' then length (project_updates d)
      else if m = ''inventory_updates'' then length (inventory_updates d)
      else if m = ''management_jobs'' then length (system_jobs d)
      else if m = ''workflow_jobs'' then length (workflow_jobs d)
      else if m = ''notifications'' then length (notifications d)
      else 0)"

definition eligible_count :: "string \<Rightarrow> command \<Rightarrow> db \<Rightarrow> nat" where
  "eligible_count m self d =
     (if m = ''jobs'' then length (filter (\<lambda>r. job_decision self r = Eligible) (jobs d))
      else if m = ''ad_hoc_commands'' then
        length (filter (\<lambda>r. ad_hoc_command_decision self r = Eligible) (ad_hoc_commands d))
      else if m = ''project_updates'' then
        length (filter (\<lambda>r. project_update_decision self r = Eligible) (project_updates d))
      else if m = ''inventory_updates'' then
        length (filter (\<lambda>r. inventory_update_decision self r = Eligible) (inventory_updates d))
      else if m = ''management_jobs'' then
        length (filter (\<lambda>r. management_job_decision self r = Eligible) (system_jobs d))
      else if m = ''workflow_jobs'' then
        length (filter (\<lambda>r. workflow_job_decision self r = Eligible) (workflow_jobs d))
      else if m = ''notifications'' then
        length (filter (\<lambda>r. notification_decision self r = Eligible) (notifications d))
      else 0)"

text \<open>No row of the database was created at or after \<open>c1\<close> and before \<open>c2\<close>.\<close>

definition none_created_between :: "int \<Rightarrow> int \<Rightarrow> db \<Rightarrow> bool" where
  "none_created_between c1 c2 d \<longleftrightarrow>
     (\<forall>r \<in> set (jobs d). \<not> (c1 \<le> created r \<and> created r < c2)) \<and>
     (\<forall>r \<in> set (ad_hoc_commands d). \<not> (c1 \<le> created r \<and> created r < c2)) \<and>
     (\<forall>r \<in> set (project_updates d). \<not> (c1 \<le> created r \<and> created r < c2)) \<and>
     (\<forall>r \<in> set (inventory_updates d). \<not> (c1 \<le> created r \<and> created r < c2)) \<and>
     (\<forall>r \<in> set (system_jobs d). \<not> (c1 \<le> created r \<and> created r < c2)) \<and>
     (\<forall>r \<in> set (workflow_jobs d). \<not> (c1 \<le> created r \<and> created r < c2)) \<and>
     (\<forall>r \<in> set (notifications d). \<not> (c1 \<le> created r \<and> created r < c2))"

text \<open>The database once the rows of model \<open>m\<close> on the deleting branch are gone.\<close>

definition sweep_model :: "string \<Rightarrow> command \<Rightarrow> db \<Rightarrow> db" where
  "sweep_model m self d =
     (if m = ''jobs'' then d\<lparr>jobs := purge (\<lambda>r. job_decision self r = Eligible) (jobs d)\<rparr>
      else if m = ''ad_hoc_commands'' then
        d\<lparr>ad_hoc_commands :=
             purge (\<lambda>r. ad_hoc_command_decision self r = Eligible) (ad_hoc_commands d)\<rparr>
      else if m = ''project_updates'' then
        d\<lparr>project_updates :=
             purge (\<lambda>r. project_update_decision self r = Eligible) (project_updates d)\<rparr>
      else if m = ''inventory_updates'' then
        d\<lparr>inventory_updates :=
             purge (\<lambda>r. inventory_update_decision self r = Eligible) (inventory_updates d)\<rparr>
      else if m = ''management_jobs'' then
        d\<lparr>system_jobs := purge (\<lambda>r. management_job_decision self r = Eligible) (system_jobs d)\<rparr>
      else if m = ''workflow_jobs'' then
        d\<lparr>workflow_jobs :=
             purge (\<lambda>r. workflow_job_decision self r = Eligible) (workflow_jobs d)\<rparr>
      else if m = ''notifications'' then
        d\<lparr>notifications :=
             purge (\<lambda>r. notification_decision self r = Eligible) (notifications d)\<rparr>
      else d)"

text \<open>
  The summary expected for model \<open>m\<close> on database \<open>d\<close>: as many deleted as there are
  rows on the deleting branch, the others skipped.
\<close>

definition report :: "command \<Rightarrow> db \<Rightarrow> string \<Rightarrow> summary" where
  "report self d m =
     \<lparr>label = replace_underscores m, would_be = dry_run self,
      n_deleted = eligible_count m self d,
      n_skipped = record_count m d - eligible_count m self d\<rparr>"

text \<open>
  The models a run is asked for: those whose \<^verbatim>\<open>only_\<close> option is true, or all of
  them when none is.
\<close>

definition flagged :: "(string \<rightharpoonup> pyval) \<Rightarrow> string \<Rightarrow> bool" where
  "flagged options m = py_bool (get options (''only_'' @ m) (PyBool False))"

definition selected :: "(string \<rightharpoonup> pyval) \<Rightarrow> string list" where
  "selected options =
     (if \<exists>m \<in> set model_names. flagged options m
      then filter (flagged options) model_names else model_names)"

subsection \<open>A small database\<close>

text \<open>
  The clock reads 2015-01-01 00:00:00, which is 735598 days after \<^verbatim>\<open>datetime.min\<close>.
  The rows are created a number of days before that.
\<close>

definition example_now :: int where
  "example_now = 735598 * us_per_day"

definition days_ago :: "int \<Rightarrow> int" where
  "days_ago n = example_now - n * us_per_day"

definition example_project :: project where
  "example_project = \<lparr>current_update = Some 1, last_update = Some 2, scm_type = ''git''\<rparr>"

definition example_inventory_source :: inventory_source where
  "example_inventory_source = \<lparr>current_update = None, last_update = Some 1, source = ''ec2''\<rparr>"

definition job_old :: row where
  "job_old = \<lparr>pk = 1, status = ''successful'', created = days_ago 91\<rparr>"

definition job_recent :: row where
  "job_recent = \<lparr>pk = 2, status = ''failed'', created = days_ago 10\<rparr>"

definition job_running :: row where
  "job_running = \<lparr>pk = 3, status = ''running'', created = days_ago 200\<rparr>"

definition pu_current :: project_update where
  "pu_current =
     \<lparr>pk = 1, status = ''successful'', created = days_ago 500, project = example_project\<rparr>"

definition pu_waiting :: project_update where
  "pu_waiting =
     \<lparr>pk = 2, status = ''waiting'', created = days_ago 300, project = example_project\<rparr>"

definition pu_old :: project_update where
  "pu_old =
     \<lparr>pk = 3, status = ''failed'', created = days_ago 300, project = example_project\<rparr>"

definition pu_boundary :: project_update where
  "pu_boundary =
     \<lparr>pk = 4, status = ''successful'', created = days_ago 90, project = example_project\<rparr>"

definition iu_last :: inventory_update where
  "iu_last = \<lparr>pk = 1, status = ''successful'', created = days_ago 500,
               inventory_source = example_inventory_source\<rparr>"

definition iu_old :: inventory_update where
  "iu_old = \<lparr>pk = 2, status = ''successful'', created = days_ago 500,
              inventory_source = example_inventory_source\<rparr>"

definition iu_running :: inventory_update where
  "iu_running = \<lparr>pk = 3, status = ''running'', created = days_ago 500,
                  inventory_source = example_inventory_source\<rparr>"

definition iu_recent :: inventory_update where
  "iu_recent = \<lparr>pk = 4, status = ''successful'', created = days_ago 5,
                 inventory_source = example_inventory_source\<rparr>"

definition n_pending :: row where
  "n_pending = \<lparr>pk = 1, status = ''pending'', created = days_ago 120\<rparr>"

definition n_running :: row where
  "n_running = \<lparr>pk = 2, status = ''running'', created = days_ago 120\<rparr>"

definition n_sent :: row where
  "n_sent = \<lparr>pk = 3, status = ''successful'', created = days_ago 120\<rparr>"

definition n_recent :: row where
  "n_recent = \<lparr>pk = 4, status = ''failed'', created = days_ago 3\<rparr>"

definition example_db :: db where
  "example_db =
     \<lparr>jobs = [job_old, job_recent, job_running],
      ad_hoc_commands = [\<lparr>pk = 1, status = ''pending'', created = days_ago 400\<rparr>,
                         \<lparr>pk = 2, status = ''canceled'', created = days_ago 400\<rparr>],
      project_updates = [pu_current, pu_waiting, pu_old, pu_boundary],
      inventory_updates = [iu_last, iu_old, iu_running, iu_recent],
      system_jobs = [\<lparr>pk = 1, status = ''waiting'', created = days_ago 100\<rparr>,
                     \<lparr>pk = 2, status = ''successful'', created = days_ago 100\<rparr>],
      workflow_jobs = [\<lparr>pk = 1, status = ''running'', created = days_ago 1\<rparr>,
                       \<lparr>pk = 2, status = ''successful'', created = days_ago 1\<rparr>,
                       \<lparr>pk = 3, status = ''error'', created = days_ago 365\<rparr>],
      notifications = [n_pending, n_running, n_sent, n_recent]\<rparr>"

text \<open>What a run over all models at \<open>example_now\<close> with 90 days leaves of it.\<close>

definition example_db_after :: db where
  "example_db_after =
     \<lparr>jobs = [job_recent, job_running],
      ad_hoc_commands = [\<lparr>pk = 1, status = ''pending'', created = days_ago 400\<rparr>],
      project_updates = [pu_current, pu_waiting, pu_boundary],
      inventory_updates = [iu_last, iu_running, iu_recent],
      system_jobs = [\<lparr>pk = 1, status = ''waiting'', created = days_ago 100\<rparr>],
      workflow_jobs = [\<lparr>pk = 1, status = ''running'', created = days_ago 1\<rparr>,
                       \<lparr>pk = 2, status = ''successful'', created = days_ago 1\<rparr>],
      notifications = [n_pending, n_recent]\<rparr>"

text \<open>The same database without the project update created exactly at the cutoff.\<close>

definition example_db_off_boundary :: db where
  "example_db_off_boundary = example_db\<lparr>project_updates := [pu_current, pu_waiting, pu_old]\<rparr>"

definition example_self :: command where
  "example_self = \<lparr>days = 90, dry_run = False, cutoff = days_ago 90\<rparr>"

subsection \<open>Loops in general\<close>

lemma tally_counts:
  "tally self dec del (d, s, k) =
     ((if dec = Eligible \<and> \<not> dry_run self then del d else d),
      (if dec = Eligible then s else s + 1),
      (if dec = Eligible then k + 1 else k))"
  by (cases dec) simp_all

lemma fold_tally_counts:
  "snd (fold (\<lambda>r. tally self (dec r) (del r)) rows (d, s, k)) =
     (s + length (filter (\<lambda>r. dec r \<noteq> Eligible) rows),
      k + length (filter (\<lambda>r. dec r = Eligible) rows))"
  by (induction rows arbitrary: d s k) (simp_all add: tally_counts)

lemma fold_tally_db:
  "fst (fold (\<lambda>r. tally self (dec r) (del r)) rows (d, s, k)) =
     fold (\<lambda>r d. if dec r = Eligible \<and> \<not> dry_run self then del r d else d) rows d"
  by (induction rows arbitrary: d s k) (simp_all add: tally_counts)

lemma fold_tally:
  "fold (\<lambda>r. tally self (dec r) (del r)) rows (d, 0, 0) =
     (fold (\<lambda>r d. if dec r = Eligible \<and> \<not> dry_run self then del r d else d) rows d,
      length (filter (\<lambda>r. dec r \<noteq> Eligible) rows),
      length (filter (\<lambda>r. dec r = Eligible) rows))"
  using fold_tally_counts [of self dec del rows d 0 0] fold_tally_db [of self dec del rows d 0 0]
  by (simp add: prod_eq_iff)

lemma length_skipped_eligible:
  "length (filter (\<lambda>r. dec r \<noteq> Eligible) rows) + length (filter (\<lambda>r. dec r = Eligible) rows)
     = length rows"
  using sum_length_filter_compl [of "\<lambda>r. dec r = Eligible" rows] by simp

lemma purge_none: "purge (\<lambda>r. False) rows = rows"
  by (simp add: purge_def)

lemma purge_unique:
  assumes "distinct (map pk rows)"
  shows "purge E rows = filter (\<lambda>x. \<not> E x) rows"
proof -
  have inj: "inj_on pk (set rows)"
    using assms by (simp add: distinct_map)
  have "pk x \<notin> set (map pk (filter E rows)) \<longleftrightarrow> \<not> E x" if "x \<in> set rows" for x
    using that inj by (auto dest: inj_onD)
  then show ?thesis
    unfolding purge_def by (intro filter_cong) auto
qed

lemma purge_keeps:
  "distinct (map pk rows) \<Longrightarrow> x \<in> set rows \<Longrightarrow> \<not> E x \<Longrightarrow> x \<in> set (purge E rows)"
  by (simp add: purge_unique)

lemma purge_removes: "x \<in> set rows \<Longrightarrow> E x \<Longrightarrow> x \<notin> set (purge E rows)"
  by (auto simp: purge_def)

lemma purge_no_eligible: "x \<in> set (purge E rows) \<Longrightarrow> \<not> E x"
  by (auto simp: purge_def)

lemma purge_distinct: "distinct (map pk rows) \<Longrightarrow> distinct (map pk (purge E rows))"
  by (simp add: purge_def distinct_map_filter)

lemmas example_rows =
  job_old_def job_recent_def job_running_def pu_current_def pu_waiting_def pu_old_def
  pu_boundary_def iu_last_def iu_old_def iu_running_def iu_recent_def n_pending_def n_running_def
  n_sent_def n_recent_def example_project_def example_inventory_source_def
  days_ago_def example_now_def us_per_day_def

lemma example_db_unique: "unique_pks example_db"
  by (simp add: unique_pks_def example_db_def example_rows)

subsection \<open>Each cleanup method in closed form\<close>

text \<open>
  Deleting, one after the other, the rows of \<open>rows\<close> that \<open>P\<close> chooses leaves the
  table without every row whose key is the key of a chosen row.
\<close>

lemma fold_delete_job:
  "fold (\<lambda>r d. if P r then delete_job r d else d) rows d =
     d\<lparr>jobs := filter (\<lambda>x. pk x \<notin> set (map pk (filter P rows))) (jobs d)\<rparr>"
  by (induction rows arbitrary: d) (auto simp: delete_job_def delete_row_def intro: filter_cong)

lemma fold_delete_ad_hoc_command:
  "fold (\<lambda>r d. if P r then delete_ad_hoc_command r d else d) rows d =
     d\<lparr>ad_hoc_commands := filter (\<lambda>x. pk x \<notin> set (map pk (filter P rows))) (ad_hoc_commands d)\<rparr>"
  by (induction rows arbitrary: d) (auto simp: delete_ad_hoc_command_def delete_row_def intro: filter_cong)

lemma fold_delete_project_update:
  "fold (\<lambda>r d. if P r then delete_project_update r d else d) rows d =
     d\<lparr>project_updates := filter (\<lambda>x. pk x \<notin> set (map pk (filter P rows))) (project_updates d)\<rparr>"
  by (induction rows arbitrary: d) (auto simp: delete_project_update_def delete_row_def intro: filter_cong)

lemma fold_delete_inventory_update:
  "fold (\<lambda>r d. if P r then delete_inventory_update r d else d) rows d =
     d\<lparr>inventory_updates := filter (\<lambda>x. pk x \<notin> set (map pk (filter P rows))) (inventory_updates d)\<rparr>"
  by (induction rows arbitrary: d) (auto simp: delete_inventory_update_def delete_row_def intro: filter_cong)

lemma fold_delete_system_job:
  "fold (\<lambda>r d. if P r then delete_system_job r d else d) rows d =
     d\<lparr>system_jobs := filter (\<lambda>x. pk x \<notin> set (map pk (filter P rows))) (system_jobs d)\<rparr>"
  by (induction rows arbitrary: d) (auto simp: delete_system_job_def delete_row_def intro: filter_cong)

lemma fold_delete_workflow_job:
  "fold (\<lambda>r d. if P r then delete_workflow_job r d else d) rows d =
     d\<lparr>workflow_jobs := filter (\<lambda>x. pk x \<notin> set (map pk (filter P rows))) (workflow_jobs d)\<rparr>"
  by (induction rows arbitrary: d) (auto simp: delete_workflow_job_def delete_row_def intro: filter_cong)

lemma fold_delete_notification:
  "fold (\<lambda>r d. if P r then delete_notification r d else d) rows d =
     d\<lparr>notifications := filter (\<lambda>x. pk x \<notin> set (map pk (filter P rows))) (notifications d)\<rparr>"
  by (induction rows arbitrary: d) (auto simp: delete_notification_def delete_row_def intro: filter_cong)

text \<open>
  So a method's result is the table purged of the rows on the deleting branch (or the
  database as it was, in a dry run) and the numbers of rows on either side.
\<close>

lemma cleanup_jobs_closed:
  "cleanup_jobs self d =
     ((if dry_run self then d
       else d\<lparr>jobs := purge (\<lambda>r. job_decision self r = Eligible) (jobs d)\<rparr>),
      length (filter (\<lambda>r. job_decision self r \<noteq> Eligible) (jobs d)),
      length (filter (\<lambda>r. job_decision self r = Eligible) (jobs d)))"
proof (cases "dry_run self")
  case True
  then show ?thesis
    using fold_delete_job [of "\<lambda>r. False" "jobs d" d]
    by (simp add: cleanup_jobs_def fold_tally)
next
  case False
  then show ?thesis
    using fold_delete_job [of "\<lambda>r. job_decision self r = Eligible" "jobs d" d]
    by (simp add: cleanup_jobs_def fold_tally purge_def)
qed

lemma cleanup_ad_hoc_commands_closed:
  "cleanup_ad_hoc_commands self d =
     ((if dry_run self then d
       else d\<lparr>ad_hoc_commands := purge (\<lambda>r. ad_hoc_command_decision self r = Eligible) (ad_hoc_commands d)\<rparr>),
      length (filter (\<lambda>r. ad_hoc_command_decision self r \<noteq> Eligible) (ad_hoc_commands d)),
      length (filter (\<lambda>r. ad_hoc_command_decision self r = Eligible) (ad_hoc_commands d)))"
proof (cases "dry_run self")
  case True
  then show ?thesis
    using fold_delete_ad_hoc_command [of "\<lambda>r. False" "ad_hoc_commands d" d]
    by (simp add: cleanup_ad_hoc_commands_def fold_tally)
next
  case False
  then show ?thesis
    using fold_delete_ad_hoc_command [of "\<lambda>r. ad_hoc_command_decision self r = Eligible" "ad_hoc_commands d" d]
    by (simp add: cleanup_ad_hoc_commands_def fold_tally purge_def)
qed

lemma cleanup_project_updates_closed:
  "cleanup_project_updates self d =
     ((if dry_run self then d
       else d\<lparr>project_updates := purge (\<lambda>r. project_update_decision self r = Eligible) (project_updates d)\<rparr>),
      length (filter (\<lambda>r. project_update_decision self r \<noteq> Eligible) (project_updates d)),
      length (filter (\<lambda>r. project_update_decision self r = Eligible) (project_updates d)))"
proof (cases "dry_run self")
  case True
  then show ?thesis
    using fold_delete_project_update [of "\<lambda>r. False" "project_updates d" d]
    by (simp add: cleanup_project_updates_def fold_tally)
next
  case False
  then show ?thesis
    using fold_delete_project_update [of "\<lambda>r. project_update_decision self r = Eligible" "project_updates d" d]
    by (simp add: cleanup_project_updates_def fold_tally purge_def)
qed

lemma cleanup_inventory_updates_closed:
  "cleanup_inventory_updates self d =
     ((if dry_run self then d
       else d\<lparr>inventory_updates := purge (\<lambda>r. inventory_update_decision self r = Eligible) (inventory_updates d)\<rparr>),
      length (filter (\<lambda>r. inventory_update_decision self r \<noteq> Eligible) (inventory_updates d)),
      length (filter (\<lambda>r. inventory_update_decision self r = Eligible) (inventory_updates d)))"
proof (cases "dry_run self")
  case True
  then show ?thesis
    using fold_delete_inventory_update [of "\<lambda>r. False" "inventory_updates d" d]
    by (simp add: cleanup_inventory_updates_def fold_tally)
next
  case False
  then show ?thesis
    using fold_delete_inventory_update [of "\<lambda>r. inventory_update_decision self r = Eligible" "inventory_updates d" d]
    by (simp add: cleanup_inventory_updates_def fold_tally purge_def)
qed

lemma cleanup_management_jobs_closed:
  "cleanup_management_jobs self d =
     ((if dry_run self then d
       else d\<lparr>system_jobs := purge (\<lambda>r. management_job_decision self r = Eligible) (system_jobs d)\<rparr>),
      length (filter (\<lambda>r. management_job_decision self r \<noteq> Eligible) (system_jobs d)),
      length (filter (\<lambda>r. management_job_decision self r = Eligible) (system_jobs d)))"
proof (cases "dry_run self")
  case True
  then show ?thesis
    using fold_delete_system_job [of "\<lambda>r. False" "system_jobs d" d]
    by (simp add: cleanup_management_jobs_def fold_tally)
next
  case False
  then show ?thesis
    using fold_delete_system_job [of "\<lambda>r. management_job_decision self r = Eligible" "system_jobs d" d]
    by (simp add: cleanup_management_jobs_def fold_tally purge_def)
qed

lemma cleanup_workflow_jobs_closed:
  "cleanup_workflow_jobs self d =
     ((if dry_run self then d
       else d\<lparr>workflow_jobs := purge (\<lambda>r. workflow_job_decision self r = Eligible) (workflow_jobs d)\<rparr>),
      length (filter (\<lambda>r. workflow_job_decision self r \<noteq> Eligible) (workflow_jobs d)),
      length (filter (\<lambda>r. workflow_job_decision self r = Eligible) (workflow_jobs d)))"
proof (cases "dry_run self")
  case True
  then show ?thesis
    using fold_delete_workflow_job [of "\<lambda>r. False" "workflow_jobs d" d]
    by (simp add: cleanup_workflow_jobs_def fold_tally)
next
  case False
  then show ?thesis
    using fold_delete_workflow_job [of "\<lambda>r. workflow_job_decision self r = Eligible" "workflow_jobs d" d]
    by (simp add: cleanup_workflow_jobs_def fold_tally purge_def)
qed

lemma cleanup_notifications_closed:
  "cleanup_notifications self d =
     ((if dry_run self then d
       else d\<lparr>notifications := purge (\<lambda>r. notification_decision self r = Eligible) (notifications d)\<rparr>),
      length (filter (\<lambda>r. notification_decision self r \<noteq> Eligible) (notifications d)),
      length (filter (\<lambda>r. notification_decision self r = Eligible) (notifications d)))"
proof (cases "dry_run self")
  case True
  then show ?thesis
    using fold_delete_notification [of "\<lambda>r. False" "notifications d" d]
    by (simp add: cleanup_notifications_def fold_tally)
next
  case False
  then show ?thesis
    using fold_delete_notification [of "\<lambda>r. notification_decision self r = Eligible" "notifications d" d]
    by (simp add: cleanup_notifications_def fold_tally purge_def)
qed

subsection \<open>What a method keeps and what it removes\<close>

lemma cleanup_jobs_keeps:
  "unique_pks d \<Longrightarrow> r \<in> set (jobs d) \<Longrightarrow> job_decision self r \<noteq> Eligible
     \<Longrightarrow> r \<in> set (jobs (fst (cleanup_jobs self d)))"
  by (simp add: cleanup_jobs_closed unique_pks_def purge_unique)

lemma cleanup_jobs_removes:
  "\<not> dry_run self \<Longrightarrow> job_decision self r = Eligible
     \<Longrightarrow> r \<notin> set (jobs (fst (cleanup_jobs self d)))"
  by (auto simp: cleanup_jobs_closed purge_def)

lemma cleanup_ad_hoc_commands_keeps:
  "unique_pks d \<Longrightarrow> r \<in> set (ad_hoc_commands d) \<Longrightarrow> ad_hoc_command_decision self r \<noteq> Eligible
     \<Longrightarrow> r \<in> set (ad_hoc_commands (fst (cleanup_ad_hoc_commands self d)))"
  by (simp add: cleanup_ad_hoc_commands_closed unique_pks_def purge_unique)

lemma cleanup_ad_hoc_commands_removes:
  "\<not> dry_run self \<Longrightarrow> ad_hoc_command_decision self r = Eligible
     \<Longrightarrow> r \<notin> set (ad_hoc_commands (fst (cleanup_ad_hoc_commands self d)))"
  by (auto simp: cleanup_ad_hoc_commands_closed purge_def)

lemma cleanup_project_updates_keeps:
  "unique_pks d \<Longrightarrow> r \<in> set (project_updates d) \<Longrightarrow> project_update_decision self r \<noteq> Eligible
     \<Longrightarrow> r \<in> set (project_updates (fst (cleanup_project_updates self d)))"
  by (simp add: cleanup_project_updates_closed unique_pks_def purge_unique)

lemma cleanup_project_updates_removes:
  "\<not> dry_run self \<Longrightarrow> project_update_decision self r = Eligible
     \<Longrightarrow> r \<notin> set (project_updates (fst (cleanup_project_updates self d)))"
  by (auto simp: cleanup_project_updates_closed purge_def)

lemma cleanup_inventory_updates_keeps:
  "unique_pks d \<Longrightarrow> r \<in> set (inventory_updates d) \<Longrightarrow> inventory_update_decision self r \<noteq> Eligible
     \<Longrightarrow> r \<in> set (inventory_updates (fst (cleanup_inventory_updates self d)))"
  by (simp add: cleanup_inventory_updates_closed unique_pks_def purge_unique)

lemma cleanup_inventory_updates_removes:
  "\<not> dry_run self \<Longrightarrow> inventory_update_decision self r = Eligible
     \<Longrightarrow> r \<notin> set (inventory_updates (fst (cleanup_inventory_updates self d)))"
  by (auto simp: cleanup_inventory_updates_closed purge_def)

lemma cleanup_management_jobs_keeps:
  "unique_pks d \<Longrightarrow> r \<in> set (system_jobs d) \<Longrightarrow> management_job_decision self r \<noteq> Eligible
     \<Longrightarrow> r \<in> set (system_jobs (fst (cleanup_management_jobs self d)))"
  by (simp add: cleanup_management_jobs_closed unique_pks_def purge_unique)

lemma cleanup_management_jobs_removes:
  "\<not> dry_run self \<Longrightarrow> management_job_decision self r = Eligible
     \<Longrightarrow> r \<notin> set (system_jobs (fst (cleanup_management_jobs self d)))"
  by (auto simp: cleanup_management_jobs_closed purge_def)

lemma cleanup_workflow_jobs_keeps:
  "unique_pks d \<Longrightarrow> r \<in> set (workflow_jobs d) \<Longrightarrow> workflow_job_decision self r \<noteq> Eligible
     \<Longrightarrow> r \<in> set (workflow_jobs (fst (cleanup_workflow_jobs self d)))"
  by (simp add: cleanup_workflow_jobs_closed unique_pks_def purge_unique)

lemma cleanup_workflow_jobs_removes:
  "\<not> dry_run self \<Longrightarrow> workflow_job_decision self r = Eligible
     \<Longrightarrow> r \<notin> set (workflow_jobs (fst (cleanup_workflow_jobs self d)))"
  by (auto simp: cleanup_workflow_jobs_closed purge_def)

lemma cleanup_notifications_keeps:
  "unique_pks d \<Longrightarrow> r \<in> set (notifications d) \<Longrightarrow> notification_decision self r \<noteq> Eligible
     \<Longrightarrow> r \<in> set (notifications (fst (cleanup_notifications self d)))"
  by (simp add: cleanup_notifications_closed unique_pks_def purge_unique)

lemma cleanup_notifications_removes:
  "\<not> dry_run self \<Longrightarrow> notification_decision self r = Eligible
     \<Longrightarrow> r \<notin> set (notifications (fst (cleanup_notifications self d)))"
  by (auto simp: cleanup_notifications_closed purge_def)

subsection \<open>The methods by name\<close>

lemma length_skipped: 
  "length (filter (\<lambda>r. dec r \<noteq> Eligible) rows) =
     length rows - length (filter (\<lambda>r. dec r = Eligible) rows)"
  using length_skipped_eligible [of dec rows] by simp

lemma cleanup_method_closed:
  assumes "cleanup_method m = Some c"
  shows "c self d =
     ((if dry_run self then d else sweep_model m self d),
      record_count m d - eligible_count m self d, eligible_count m self d)"
proof -
  consider "m = ''jobs''" | "m = ''ad_hoc_commands''" | "m = ''project_updates''"
    | "m = ''inventory_updates''" | "m = ''management_jobs''" | "m = ''workflow_jobs''"
    | "m = ''notifications''"
    using assms by (auto simp: cleanup_method_def split: if_splits)
  then show ?thesis
  proof cases
    case 1
    with assms have "c = cleanup_jobs" by (simp add: cleanup_method_def)
    with 1 show ?thesis
      by (simp add: cleanup_jobs_closed sweep_model_def record_count_def eligible_count_def
          length_skipped)
  next
    case 2
    with assms have "c = cleanup_ad_hoc_commands" by (simp add: cleanup_method_def)
    with 2 show ?thesis
      by (simp add: cleanup_ad_hoc_commands_closed sweep_model_def record_count_def
          eligible_count_def length_skipped)
  next
    case 3
    with assms have "c = cleanup_project_updates" by (simp add: cleanup_method_def)
    with 3 show ?thesis
      by (simp add: cleanup_project_updates_closed sweep_model_def record_count_def
          eligible_count_def length_skipped)
  next
    case 4
    with assms have "c = cleanup_inventory_updates" by (simp add: cleanup_method_def)
    with 4 show ?thesis
      by (simp add: cleanup_inventory_updates_closed sweep_model_def record_count_def
          eligible_count_def length_skipped)
  next
    case 5
    with assms have "c = cleanup_management_jobs" by (simp add: cleanup_method_def)
    with 5 show ?thesis
      by (simp add: cleanup_management_jobs_closed sweep_model_def record_count_def
          eligible_count_def length_skipped)
  next
    case 6
    with assms have "c = cleanup_workflow_jobs" by (simp add: cleanup_method_def)
    with 6 show ?thesis
      by (simp add: cleanup_workflow_jobs_closed sweep_model_def record_count_def
          eligible_count_def length_skipped)
  next
    case 7
    with assms have "c = cleanup_notifications" by (simp add: cleanup_method_def)
    with 7 show ?thesis
      by (simp add: cleanup_notifications_closed sweep_model_def record_count_def
          eligible_count_def length_skipped)
  qed
qed

lemma cleanup_method_known: "m \<in> set model_names \<Longrightarrow> cleanup_method m \<noteq> None"
  by (auto simp: model_names_def cleanup_method_def)

lemma sweep_model_unknown: "m \<notin> set model_names \<Longrightarrow> sweep_model m self d = d"
  by (simp add: sweep_model_def model_names_def)

lemma sweep_model_frame:
  assumes "m \<noteq> m'"
  shows "eligible_count m' self (sweep_model m self d) = eligible_count m' self d"
    and "record_count m' (sweep_model m self d) = record_count m' d"
proof -
  consider "m = ''jobs''" | "m = ''ad_hoc_commands''" | "m = ''project_updates''"
    | "m = ''inventory_updates''" | "m = ''management_jobs''" | "m = ''workflow_jobs''"
    | "m = ''notifications''" | "m \<notin> set model_names"
    by (auto simp: model_names_def)
  then have "eligible_count m' self (sweep_model m self d) = eligible_count m' self d \<and>
    record_count m' (sweep_model m self d) = record_count m' d"
  proof cases
    case 8
    then show ?thesis by (simp add: sweep_model_unknown)
  qed (use assms in \<open>simp_all add: sweep_model_def eligible_count_def record_count_def\<close>)
  then show "eligible_count m' self (sweep_model m self d) = eligible_count m' self d"
    and "record_count m' (sweep_model m self d) = record_count m' d"
    by simp_all
qed

lemma purge_clean: "filter E (purge E rows) = []"
  by (auto simp: purge_def filter_empty_conv)

lemma purge_idle: "filter E rows = [] \<Longrightarrow> purge E rows = rows"
  by (simp add: purge_def)

lemma length_purge:
  "distinct (map pk rows) \<Longrightarrow> length (purge E rows) = length rows - length (filter E rows)"
  using sum_length_filter_compl [of E rows] by (simp add: purge_unique)

lemma sweep_model_clean: "eligible_count m self (sweep_model m self d) = 0"
proof -
  consider "m = ''jobs''" | "m = ''ad_hoc_commands''" | "m = ''project_updates''"
    | "m = ''inventory_updates''" | "m = ''management_jobs''" | "m = ''workflow_jobs''"
    | "m = ''notifications''" | "m \<notin> set model_names"
    by (auto simp: model_names_def)
  then show ?thesis
  proof cases
    case 8
    then show ?thesis by (simp add: eligible_count_def model_names_def)
  qed (simp_all add: sweep_model_def eligible_count_def purge_clean)
qed

lemma sweep_model_idle: "eligible_count m self d = 0 \<Longrightarrow> sweep_model m self d = d"
proof -
  assume a: "eligible_count m self d = 0"
  consider "m = ''jobs''" | "m = ''ad_hoc_commands''" | "m = ''project_updates''"
    | "m = ''inventory_updates''" | "m = ''management_jobs''" | "m = ''workflow_jobs''"
    | "m = ''notifications''" | "m \<notin> set model_names"
    by (auto simp: model_names_def)
  then show ?thesis
  proof cases
    case 8
    then show ?thesis by (simp add: sweep_model_unknown)
  qed (use a in \<open>simp_all add: sweep_model_def eligible_count_def purge_idle\<close>)
qed

lemma sweep_model_count:
  "unique_pks d \<Longrightarrow>
     record_count m (sweep_model m self d) = record_count m d - eligible_count m self d"
proof -
  assume u: "unique_pks d"
  consider "m = ''jobs''" | "m = ''ad_hoc_commands''" | "m = ''project_updates''"
    | "m = ''inventory_updates''" | "m = ''management_jobs''" | "m = ''workflow_jobs''"
    | "m = ''notifications''" | "m \<notin> set model_names"
    by (auto simp: model_names_def)
  then show ?thesis
  proof cases
    case 8
    then show ?thesis
      by (simp add: sweep_model_unknown eligible_count_def record_count_def model_names_def)
  qed (use u in \<open>simp_all add: sweep_model_def eligible_count_def record_count_def
      unique_pks_def length_purge\<close>)
qed

lemma sweep_model_unique: "unique_pks d \<Longrightarrow> unique_pks (sweep_model m self d)"
  by (simp add: sweep_model_def unique_pks_def purge_distinct)

subsection \<open>The whole run\<close>

lemma report_frame: "m \<noteq> m' \<Longrightarrow> report self (sweep_model m self d) m' = report self d m'"
  by (simp add: report_def sweep_model_frame)

lemma run_models_closed:
  assumes "distinct ms" "set ms \<subseteq> set model_names"
  shows "run_models self S ms (d, out) =
     Inr ((if dry_run self then d
           else fold (\<lambda>m. sweep_model m self) (filter (\<lambda>m. m \<in> S) ms) d),
          out @ map (report self d) (filter (\<lambda>m. m \<in> S) ms))"
  using assms
proof (induction ms arbitrary: d out)
  case Nil
  show ?case by simp
next
  case (Cons m ms)
  then have dist: "distinct ms" and sub: "set ms \<subseteq> set model_names" and notin: "m \<notin> set ms"
    and known: "m \<in> set model_names"
    by simp_all
  show ?case
  proof (cases "m \<in> S")
    case False
    then show ?thesis
      using Cons.IH [OF dist sub] by simp
  next
    case True
    obtain c where c: "cleanup_method m = Some c"
      using cleanup_method_known [OF known] by auto
    have same: "map (report self (sweep_model m self d)) (filter (\<lambda>m. m \<in> S) ms) =
      map (report self d) (filter (\<lambda>m. m \<in> S) ms)"
    proof (intro map_cong refl)
      fix x assume "x \<in> set (filter (\<lambda>m. m \<in> S) ms)"
      with notin have "m \<noteq> x" by auto
      then show "report self (sweep_model m self d) x = report self d x"
        by (rule report_frame)
    qed
    have rep: "\<lparr>label = replace_underscores m, would_be = dry_run self,
        n_deleted = eligible_count m self d,
        n_skipped = record_count m d - eligible_count m self d\<rparr> = report self d m"
      by (simp add: report_def)
    show ?thesis
      using True c same
      by (simp add: cleanup_method_closed [OF c] Cons.IH [OF dist sub] rep)
  qed
qed

lemma model_names_distinct: "distinct model_names"
  by (simp add: model_names_def)

lemma models_to_cleanup_fold:
  "fold (\<lambda>m s. if py_bool (get options (''only_'' @ m) (PyBool False)) then insert m s else s)
     ms S = S \<union> {m \<in> set ms. flagged options m}"
  by (induction ms arbitrary: S) (auto simp: flagged_def)

lemma selected_filter:
  "filter (\<lambda>m. m \<in> (if {m \<in> set model_names. flagged options m} = {}
       then {m \<in> set model_names. flagged options m} \<union> set model_names
       else {m \<in> set model_names. flagged options m})) model_names = selected options"
proof (cases "\<exists>m \<in> set model_names. flagged options m")
  case True
  then have "{m \<in> set model_names. flagged options m} \<noteq> {}" by auto
  with True show ?thesis
    by (auto simp: selected_def intro: filter_cong)
next
  case False
  then have "{m \<in> set model_names. flagged options m} = {}" by auto
  with False show ?thesis
    by (simp add: selected_def)
qed

lemma handle_noargs_closed:
  "handle_noargs options now d =
     (case Option.bind (timedelta (py_int (get options ''days'' (PyInt 90)))) (datetime_sub now) of
        None \<Rightarrow> Inl (CommandError
          ''--days specified is too large. Try something less than 99999 (about 270 years).'')
      | Some c \<Rightarrow>
          Inr (\<lparr>days = py_int (get options ''days'' (PyInt 90)),
                dry_run = py_bool (get options ''dry_run'' (PyBool False)), cutoff = c\<rparr>,
               (if py_bool (get options ''dry_run'' (PyBool False)) then d
                else fold (\<lambda>m. sweep_model m
                       \<lparr>days = py_int (get options ''days'' (PyInt 90)),
                        dry_run = py_bool (get options ''dry_run'' (PyBool False)), cutoff = c\<rparr>)
                     (selected options) d),
               map (report \<lparr>days = py_int (get options ''days'' (PyInt 90)),
                     dry_run = py_bool (get options ''dry_run'' (PyBool False)), cutoff = c\<rparr> d)
                 (selected options)))"
proof -
  have S: "fold (\<lambda>m s. if py_bool (get options (''only_'' @ m) (PyBool False))
             then insert m s else s) model_names {} =
           {m \<in> set model_names. flagged options m}"
    using models_to_cleanup_fold [of options model_names "{}"] by simp
  show ?thesis
  proof (cases "Option.bind (timedelta (py_int (get options ''days'' (PyInt 90))))
      (datetime_sub now)")
    case None
    then show ?thesis
      unfolding handle_noargs_def Let_def by simp
  next
    case (Some c)
    show ?thesis
      unfolding handle_noargs_def Let_def S Some
        run_models_closed [OF model_names_distinct subset_refl] selected_filter
      by simp
  qed
qed

subsection \<open>The cutoff\<close>

lemma cutoff_in_range:
  assumes "0 \<le> now" "now < datetime_span"
  shows "Option.bind (timedelta n) (datetime_sub now) =
     (if 0 \<le> now - n * us_per_day \<and> now - n * us_per_day < datetime_span
      then Some (now - n * us_per_day) else None)"
proof (cases "\<bar>n\<bar> \<le> 999999999")
  case True
  then show ?thesis
    by (simp add: timedelta_def datetime_sub_def Let_def)
next
  case False
  then have "n * us_per_day > now \<or> now - n * us_per_day \<ge> datetime_span"
    using assms by (auto simp: us_per_day_def datetime_span_def)
  with False show ?thesis
    by (auto simp: timedelta_def)
qed

subsection \<open>A run after a run\<close>

lemma sweeps_frame:
  "m \<notin> set ms \<Longrightarrow>
     eligible_count m self (fold (\<lambda>m. sweep_model m self) ms d) = eligible_count m self d \<and>
     record_count m (fold (\<lambda>m. sweep_model m self) ms d) = record_count m d"
proof (induction ms arbitrary: d)
  case Nil
  show ?case by simp
next
  case (Cons a ms)
  then have "a \<noteq> m" "m \<notin> set ms" by auto
  then show ?case
    using Cons.IH [of "sweep_model a self d"] by (simp add: sweep_model_frame)
qed

lemma sweeps_unique:
  "unique_pks d \<Longrightarrow> unique_pks (fold (\<lambda>m. sweep_model m self) ms d)"
  by (induction ms arbitrary: d) (simp_all add: sweep_model_unique)

lemma sweeps_clean:
  "distinct ms \<Longrightarrow> m \<in> set ms \<Longrightarrow>
     eligible_count m self (fold (\<lambda>m. sweep_model m self) ms d) = 0"
proof (induction ms arbitrary: d)
  case Nil
  then show ?case by simp
next
  case (Cons a ms)
  show ?case
  proof (cases "a = m")
    case True
    with Cons.prems have "m \<notin> set ms" by simp
    with True show ?thesis
      by (simp add: sweeps_frame sweep_model_clean)
  next
    case False
    with Cons.prems have "distinct ms" "m \<in> set ms" by simp_all
    then show ?thesis
      using Cons.IH by simp
  qed
qed

lemma sweeps_count:
  "distinct ms \<Longrightarrow> unique_pks d \<Longrightarrow> m \<in> set ms \<Longrightarrow>
     record_count m (fold (\<lambda>m. sweep_model m self) ms d) =
       record_count m d - eligible_count m self d"
proof (induction ms arbitrary: d)
  case Nil
  then show ?case by simp
next
  case (Cons a ms)
  show ?case
  proof (cases "a = m")
    case True
    with Cons.prems have "m \<notin> set ms" by simp
    with True Cons.prems(2) show ?thesis
      by (simp add: sweeps_frame sweep_model_count)
  next
    case False
    with Cons.prems have "distinct ms" "m \<in> set ms" by simp_all
    moreover have "unique_pks (sweep_model a self d)"
      using Cons.prems(2) by (rule sweep_model_unique)
    ultimately show ?thesis
      using Cons.IH [of "sweep_model a self d"] False by (simp add: sweep_model_frame)
  qed
qed

lemma sweeps_idle:
  "\<forall>m \<in> set ms. eligible_count m self d = 0 \<Longrightarrow> fold (\<lambda>m. sweep_model m self) ms d = d"
  by (induction ms) (simp_all add: sweep_model_idle)

lemma selected_distinct: "distinct (selected options)"
  by (simp add: selected_def model_names_distinct)

lemma selected_subset: "set (selected options) \<subseteq> set model_names"
  by (auto simp: selected_def)

subsection \<open>Tables a run leaves alone\<close>








subsection \<open>Dry runs\<close>

lemma eligible_count_cutoff:
  "cutoff s1 = cutoff s2 \<Longrightarrow> eligible_count m s1 d = eligible_count m s2 d"
  by (simp add: eligible_count_def job_decision_def ad_hoc_command_decision_def
      project_update_decision_def inventory_update_decision_def management_job_decision_def
      workflow_job_decision_def notification_decision_def)

lemma flagged_dry_run: "flagged (options(''dry_run'' \<mapsto> v)) m = flagged options m"
  by (simp add: flagged_def get_def)

lemma selected_dry_run: "selected (options(''dry_run'' \<mapsto> v)) = selected options"
  by (simp add: selected_def flagged_dry_run cong: filter_cong)

lemma days_dry_run:
  "get (options(''dry_run'' \<mapsto> v)) ''days'' dflt = get options ''days'' dflt"
  "get (options(''dry_run'' \<mapsto> v)) ''dry_run'' dflt = v"
  by (simp_all add: get_def)

subsection \<open>What the counters count\<close>

text \<open>
  A row of the table that is on a skipping branch is one of the rows the method's skipped
  counter counts; the deleted counter counts the rows on the deleting branch.
\<close>

lemma cleanup_jobs_counts_skipped:
  assumes "r \<in> set (jobs d)" "job_decision self r \<noteq> Eligible"
  shows "snd (cleanup_jobs self d) =
      (length (filter (\<lambda>x. job_decision self x \<noteq> Eligible) (jobs d)),
       length (filter (\<lambda>x. job_decision self x = Eligible) (jobs d)))"
    and "r \<in> set (filter (\<lambda>x. job_decision self x \<noteq> Eligible) (jobs d))"
    and "1 \<le> fst (snd (cleanup_jobs self d))"
proof -
  show c: "snd (cleanup_jobs self d) =
      (length (filter (\<lambda>x. job_decision self x \<noteq> Eligible) (jobs d)),
       length (filter (\<lambda>x. job_decision self x = Eligible) (jobs d)))"
    by (simp add: cleanup_jobs_closed)
  show m: "r \<in> set (filter (\<lambda>x. job_decision self x \<noteq> Eligible) (jobs d))"
    using assms by simp
  from m have "0 < length (filter (\<lambda>x. job_decision self x \<noteq> Eligible) (jobs d))"
    by (rule length_pos_if_in_set)
  then show "1 \<le> fst (snd (cleanup_jobs self d))"
    unfolding c by (simp add: Suc_le_eq)
qed

lemma cleanup_ad_hoc_commands_counts_skipped:
  assumes "r \<in> set (ad_hoc_commands d)" "ad_hoc_command_decision self r \<noteq> Eligible"
  shows "snd (cleanup_ad_hoc_commands self d) =
      (length (filter (\<lambda>x. ad_hoc_command_decision self x \<noteq> Eligible) (ad_hoc_commands d)),
       length (filter (\<lambda>x. ad_hoc_command_decision self x = Eligible) (ad_hoc_commands d)))"
    and "r \<in> set (filter (\<lambda>x. ad_hoc_command_decision self x \<noteq> Eligible) (ad_hoc_commands d))"
    and "1 \<le> fst (snd (cleanup_ad_hoc_commands self d))"
proof -
  show c: "snd (cleanup_ad_hoc_commands self d) =
      (length (filter (\<lambda>x. ad_hoc_command_decision self x \<noteq> Eligible) (ad_hoc_commands d)),
       length (filter (\<lambda>x. ad_hoc_command_decision self x = Eligible) (ad_hoc_commands d)))"
    by (simp add: cleanup_ad_hoc_commands_closed)
  show m: "r \<in> set (filter (\<lambda>x. ad_hoc_command_decision self x \<noteq> Eligible) (ad_hoc_commands d))"
    using assms by simp
  from m have "0 < length (filter (\<lambda>x. ad_hoc_command_decision self x \<noteq> Eligible) (ad_hoc_commands d))"
    by (rule length_pos_if_in_set)
  then show "1 \<le> fst (snd (cleanup_ad_hoc_commands self d))"
    unfolding c by (simp add: Suc_le_eq)
qed

lemma cleanup_project_updates_counts_skipped:
  assumes "r \<in> set (project_updates d)" "project_update_decision self r \<noteq> Eligible"
  shows "snd (cleanup_project_updates self d) =
      (length (filter (\<lambda>x. project_update_decision self x \<noteq> Eligible) (project_updates d)),
       length (filter (\<lambda>x. project_update_decision self x = Eligible) (project_updates d)))"
    and "r \<in> set (filter (\<lambda>x. project_update_decision self x \<noteq> Eligible) (project_updates d))"
    and "1 \<le> fst (snd (cleanup_project_updates self d))"
proof -
  show c: "snd (cleanup_project_updates self d) =
      (length (filter (\<lambda>x. project_update_decision self x \<noteq> Eligible) (project_updates d)),
       length (filter (\<lambda>x. project_update_decision self x = Eligible) (project_updates d)))"
    by (simp add: cleanup_project_updates_closed)
  show m: "r \<in> set (filter (\<lambda>x. project_update_decision self x \<noteq> Eligible) (project_updates d))"
    using assms by simp
  from m have "0 < length (filter (\<lambda>x. project_update_decision self x \<noteq> Eligible) (project_updates d))"
    by (rule length_pos_if_in_set)
  then show "1 \<le> fst (snd (cleanup_project_updates self d))"
    unfolding c by (simp add: Suc_le_eq)
qed

lemma cleanup_inventory_updates_counts_skipped:
  assumes "r \<in> set (inventory_updates d)" "inventory_update_decision self r \<noteq> Eligible"
  shows "snd (cleanup_inventory_updates self d) =
      (length (filter (\<lambda>x. inventory_update_decision self x \<noteq> Eligible) (inventory_updates d)),
       length (filter (\<lambda>x. inventory_update_decision self x = Eligible) (inventory_updates d)))"
    and "r \<in> set (filter (\<lambda>x. inventory_update_decision self x \<noteq> Eligible) (inventory_updates d))"
    and "1 \<le> fst (snd (cleanup_inventory_updates self d))"
proof -
  show c: "snd (cleanup_inventory_updates self d) =
      (length (filter (\<lambda>x. inventory_update_decision self x \<noteq> Eligible) (inventory_updates d)),
       length (filter (\<lambda>x. inventory_update_decision self x = Eligible) (inventory_updates d)))"
    by (simp add: cleanup_inventory_updates_closed)
  show m: "r \<in> set (filter (\<lambda>x. inventory_update_decision self x \<noteq> Eligible) (inventory_updates d))"
    using assms by simp
  from m have "0 < length (filter (\<lambda>x. inventory_update_decision self x \<noteq> Eligible) (inventory_updates d))"
    by (rule length_pos_if_in_set)
  then show "1 \<le> fst (snd (cleanup_inventory_updates self d))"
    unfolding c by (simp add: Suc_le_eq)
qed

lemma cleanup_management_jobs_counts_skipped:
  assumes "r \<in> set (system_jobs d)" "management_job_decision self r \<noteq> Eligible"
  shows "snd (cleanup_management_jobs self d) =
      (length (filter (\<lambda>x. management_job_decision self x \<noteq> Eligible) (system_jobs d)),
       length (filter (\<lambda>x. management_job_decision self x = Eligible) (system_jobs d)))"
    and "r \<in> set (filter (\<lambda>x. management_job_decision self x \<noteq> Eligible) (system_jobs d))"
    and "1 \<le> fst (snd (cleanup_management_jobs self d))"
proof -
  show c: "snd (cleanup_management_jobs self d) =
      (length (filter (\<lambda>x. management_job_decision self x \<noteq> Eligible) (system_jobs d)),
       length (filter (\<lambda>x. management_job_decision self x = Eligible) (system_jobs d)))"
    by (simp add: cleanup_management_jobs_closed)
  show m: "r \<in> set (filter (\<lambda>x. management_job_decision self x \<noteq> Eligible) (system_jobs d))"
    using assms by simp
  from m have "0 < length (filter (\<lambda>x. management_job_decision self x \<noteq> Eligible) (system_jobs d))"
    by (rule length_pos_if_in_set)
  then show "1 \<le> fst (snd (cleanup_management_jobs self d))"
    unfolding c by (simp add: Suc_le_eq)
qed

lemma cleanup_workflow_jobs_counts_skipped:
  assumes "r \<in> set (workflow_jobs d)" "workflow_job_decision self r \<noteq> Eligible"
  shows "snd (cleanup_workflow_jobs self d) =
      (length (filter (\<lambda>x. workflow_job_decision self x \<noteq> Eligible) (workflow_jobs d)),
       length (filter (\<lambda>x. workflow_job_decision self x = Eligible) (workflow_jobs d)))"
    and "r \<in> set (filter (\<lambda>x. workflow_job_decision self x \<noteq> Eligible) (workflow_jobs d))"
    and "1 \<le> fst (snd (cleanup_workflow_jobs self d))"
proof -
  show c: "snd (cleanup_workflow_jobs self d) =
      (length (filter (\<lambda>x. workflow_job_decision self x \<noteq> Eligible) (workflow_jobs d)),
       length (filter (\<lambda>x. workflow_job_decision self x = Eligible) (workflow_jobs d)))"
    by (simp add: cleanup_workflow_jobs_closed)
  show m: "r \<in> set (filter (\<lambda>x. workflow_job_decision self x \<noteq> Eligible) (workflow_jobs d))"
    using assms by simp
  from m have "0 < length (filter (\<lambda>x. workflow_job_decision self x \<noteq> Eligible) (workflow_jobs d))"
    by (rule length_pos_if_in_set)
  then show "1 \<le> fst (snd (cleanup_workflow_jobs self d))"
    unfolding c by (simp add: Suc_le_eq)
qed

lemma cleanup_notifications_counts_skipped:
  assumes "r \<in> set (notifications d)" "notification_decision self r \<noteq> Eligible"
  shows "snd (cleanup_notifications self d) =
      (length (filter (\<lambda>x. notification_decision self x \<noteq> Eligible) (notifications d)),
       length (filter (\<lambda>x. notification_decision self x = Eligible) (notifications d)))"
    and "r \<in> set (filter (\<lambda>x. notification_decision self x \<noteq> Eligible) (notifications d))"
    and "1 \<le> fst (snd (cleanup_notifications self d))"
proof -
  show c: "snd (cleanup_notifications self d) =
      (length (filter (\<lambda>x. notification_decision self x \<noteq> Eligible) (notifications d)),
       length (filter (\<lambda>x. notification_decision self x = Eligible) (notifications d)))"
    by (simp add: cleanup_notifications_closed)
  show m: "r \<in> set (filter (\<lambda>x. notification_decision self x \<noteq> Eligible) (notifications d))"
    using assms by simp
  from m have "0 < length (filter (\<lambda>x. notification_decision self x \<noteq> Eligible) (notifications d))"
    by (rule length_pos_if_in_set)
  then show "1 \<le> fst (snd (cleanup_notifications self d))"
    unfolding c by (simp add: Suc_le_eq)
qed

lemma cleanup_jobs_skips:
  assumes "unique_pks d" "r \<in> set (jobs d)" "job_decision self r \<noteq> Eligible"
  shows "r \<in> set (jobs (fst (cleanup_jobs self d))) \<and>
     snd (cleanup_jobs self d) =
       (length (filter (\<lambda>x. job_decision self x \<noteq> Eligible) (jobs d)),
        length (filter (\<lambda>x. job_decision self x = Eligible) (jobs d))) \<and>
     r \<in> set (filter (\<lambda>x. job_decision self x \<noteq> Eligible) (jobs d)) \<and>
     1 \<le> fst (snd (cleanup_jobs self d))"
  using cleanup_jobs_keeps [OF assms] cleanup_jobs_counts_skipped [OF assms(2,3)]
  by (intro conjI)

lemma cleanup_ad_hoc_commands_skips:
  assumes "unique_pks d" "r \<in> set (ad_hoc_commands d)" "ad_hoc_command_decision self r \<noteq> Eligible"
  shows "r \<in> set (ad_hoc_commands (fst (cleanup_ad_hoc_commands self d))) \<and>
     snd (cleanup_ad_hoc_commands self d) =
       (length (filter (\<lambda>x. ad_hoc_command_decision self x \<noteq> Eligible) (ad_hoc_commands d)),
        length (filter (\<lambda>x. ad_hoc_command_decision self x = Eligible) (ad_hoc_commands d))) \<and>
     r \<in> set (filter (\<lambda>x. ad_hoc_command_decision self x \<noteq> Eligible) (ad_hoc_commands d)) \<and>
     1 \<le> fst (snd (cleanup_ad_hoc_commands self d))"
  using cleanup_ad_hoc_commands_keeps [OF assms] cleanup_ad_hoc_commands_counts_skipped [OF assms(2,3)]
  by (intro conjI)

lemma cleanup_project_updates_skips:
  assumes "unique_pks d" "r \<in> set (project_updates d)" "project_update_decision self r \<noteq> Eligible"
  shows "r \<in> set (project_updates (fst (cleanup_project_updates self d))) \<and>
     snd (cleanup_project_updates self d) =
       (length (filter (\<lambda>x. project_update_decision self x \<noteq> Eligible) (project_updates d)),
        length (filter (\<lambda>x. project_update_decision self x = Eligible) (project_updates d))) \<and>
     r \<in> set (filter (\<lambda>x. project_update_decision self x \<noteq> Eligible) (project_updates d)) \<and>
     1 \<le> fst (snd (cleanup_project_updates self d))"
  using cleanup_project_updates_keeps [OF assms] cleanup_project_updates_counts_skipped [OF assms(2,3)]
  by (intro conjI)

lemma cleanup_inventory_updates_skips:
  assumes "unique_pks d" "r \<in> set (inventory_updates d)" "inventory_update_decision self r \<noteq> Eligible"
  shows "r \<in> set (inventory_updates (fst (cleanup_inventory_updates self d))) \<and>
     snd (cleanup_inventory_updates self d) =
       (length (filter (\<lambda>x. inventory_update_decision self x \<noteq> Eligible) (inventory_updates d)),
        length (filter (\<lambda>x. inventory_update_decision self x = Eligible) (inventory_updates d))) \<and>
     r \<in> set (filter (\<lambda>x. inventory_update_decision self x \<noteq> Eligible) (inventory_updates d)) \<and>
     1 \<le> fst (snd (cleanup_inventory_updates self d))"
  using cleanup_inventory_updates_keeps [OF assms] cleanup_inventory_updates_counts_skipped [OF assms(2,3)]
  by (intro conjI)

lemma cleanup_management_jobs_skips:
  assumes "unique_pks d" "r \<in> set (system_jobs d)" "management_job_decision self r \<noteq> Eligible"
  shows "r \<in> set (system_jobs (fst (cleanup_management_jobs self d))) \<and>
     snd (cleanup_management_jobs self d) =
       (length (filter (\<lambda>x. management_job_decision self x \<noteq> Eligible) (system_jobs d)),
        length (filter (\<lambda>x. management_job_decision self x = Eligible) (system_jobs d))) \<and>
     r \<in> set (filter (\<lambda>x. management_job_decision self x \<noteq> Eligible) (system_jobs d)) \<and>
     1 \<le> fst (snd (cleanup_management_jobs self d))"
  using cleanup_management_jobs_keeps [OF assms] cleanup_management_jobs_counts_skipped [OF assms(2,3)]
  by (intro conjI)

lemma cleanup_workflow_jobs_skips:
  assumes "unique_pks d" "r \<in> set (workflow_jobs d)" "workflow_job_decision self r \<noteq> Eligible"
  shows "r \<in> set (workflow_jobs (fst (cleanup_workflow_jobs self d))) \<and>
     snd (cleanup_workflow_jobs self d) =
       (length (filter (\<lambda>x. workflow_job_decision self x \<noteq> Eligible) (workflow_jobs d)),
        length (filter (\<lambda>x. workflow_job_decision self x = Eligible) (workflow_jobs d))) \<and>
     r \<in> set (filter (\<lambda>x. workflow_job_decision self x \<noteq> Eligible) (workflow_jobs d)) \<and>
     1 \<le> fst (snd (cleanup_workflow_jobs self d))"
  using cleanup_workflow_jobs_keeps [OF assms] cleanup_workflow_jobs_counts_skipped [OF assms(2,3)]
  by (intro conjI)

lemma cleanup_notifications_skips:
  assumes "unique_pks d" "r \<in> set (notifications d)" "notification_decision self r \<noteq> Eligible"
  shows "r \<in> set (notifications (fst (cleanup_notifications self d))) \<and>
     snd (cleanup_notifications self d) =
       (length (filter (\<lambda>x. notification_decision self x \<noteq> Eligible) (notifications d)),
        length (filter (\<lambda>x. notification_decision self x = Eligible) (notifications d))) \<and>
     r \<in> set (filter (\<lambda>x. notification_decision self x \<noteq> Eligible) (notifications d)) \<and>
     1 \<le> fst (snd (cleanup_notifications self d))"
  using cleanup_notifications_keeps [OF assms] cleanup_notifications_counts_skipped [OF assms(2,3)]
  by (intro conjI)

subsection \<open>A later run\<close>

lemma purge_all: "\<forall>r \<in> set rows. P r \<Longrightarrow> \<forall>r \<in> set (purge E rows). P r"
  by (simp add: purge_def)

lemma sweep_model_none_between:
  assumes "none_created_between c1 c2 d"
  shows "none_created_between c1 c2 (sweep_model m self d)"
proof -
  consider "m = ''jobs''" | "m = ''ad_hoc_commands''" | "m = ''project_updates''"
    | "m = ''inventory_updates''" | "m = ''management_jobs''" | "m = ''workflow_jobs''"
    | "m = ''notifications''" | "m \<notin> set model_names"
    by (auto simp: model_names_def)
  then show ?thesis
  proof cases
    case 8
    then show ?thesis using assms by (simp add: sweep_model_unknown)
  qed (use assms in \<open>auto simp: sweep_model_def none_created_between_def purge_def\<close>)
qed

lemma sweeps_none_between:
  "none_created_between c1 c2 d \<Longrightarrow>
     none_created_between c1 c2 (fold (\<lambda>m. sweep_model m self) ms d)"
  by (induction ms arbitrary: d) (simp_all add: sweep_model_none_between)

lemma still_skipped:
  assumes "\<not> (cutoff s1 \<le> created r \<and> created r < cutoff s2)"
  shows "job_decision s1 r \<noteq> Eligible \<Longrightarrow> job_decision s2 r \<noteq> Eligible"
    and "ad_hoc_command_decision s1 r \<noteq> Eligible \<Longrightarrow> ad_hoc_command_decision s2 r \<noteq> Eligible"
    and "management_job_decision s1 r \<noteq> Eligible \<Longrightarrow> management_job_decision s2 r \<noteq> Eligible"
    and "workflow_job_decision s1 r \<noteq> Eligible \<Longrightarrow> workflow_job_decision s2 r \<noteq> Eligible"
    and "notification_decision s1 r \<noteq> Eligible \<Longrightarrow> notification_decision s2 r \<noteq> Eligible"
  using assms
  by (auto simp: job_decision_def ad_hoc_command_decision_def management_job_decision_def
      workflow_job_decision_def notification_decision_def split: if_splits)

lemma still_skipped_project_update:
  "\<not> (cutoff s1 \<le> created pu \<and> created pu < cutoff s2) \<Longrightarrow>
     project_update_decision s1 pu \<noteq> Eligible \<Longrightarrow> project_update_decision s2 pu \<noteq> Eligible"
  by (auto simp: project_update_decision_def split: if_splits)

lemma still_skipped_inventory_update:
  "\<not> (cutoff s1 \<le> created iu \<and> created iu < cutoff s2) \<Longrightarrow>
     inventory_update_decision s1 iu \<noteq> Eligible \<Longrightarrow>
     inventory_update_decision s2 iu \<noteq> Eligible"
  by (auto simp: inventory_update_decision_def split: if_splits)

lemma filter_still_empty:
  assumes "\<forall>r \<in> set rows. \<not> (ca \<le> created r \<and> created r < cb)"
    and "filter (\<lambda>r. deca r = Eligible) rows = []"
    and "\<And>r. \<not> (ca \<le> created r \<and> created r < cb) \<Longrightarrow> deca r \<noteq> Eligible
           \<Longrightarrow> decb r \<noteq> Eligible"
  shows "filter (\<lambda>r. decb r = Eligible) rows = []"
proof -
  have "decb r \<noteq> Eligible" if "r \<in> set rows" for r
  proof (rule assms(3))
    show "\<not> (ca \<le> created r \<and> created r < cb)" using assms(1) that by blast
    show "deca r \<noteq> Eligible" using assms(2) that by (simp add: filter_empty_conv)
  qed
  then show ?thesis by (simp add: filter_empty_conv)
qed

lemma eligible_count_still_zero:
  assumes n: "none_created_between (cutoff s1) (cutoff s2) d"
    and z: "eligible_count m s1 d = 0"
  shows "eligible_count m s2 d = 0"
proof -
  consider "m = ''jobs''" | "m = ''ad_hoc_commands''" | "m = ''project_updates''"
    | "m = ''inventory_updates''" | "m = ''management_jobs''" | "m = ''workflow_jobs''"
    | "m = ''notifications''" | "m \<notin> set model_names"
    by (auto simp: model_names_def)
  then show ?thesis
  proof cases
    case 1
    have "filter (\<lambda>r. job_decision s2 r = Eligible) (jobs d) = []"
    proof (rule filter_still_empty [where ca = "cutoff s1" and cb = "cutoff s2"
          and deca = "job_decision s1"])
      show "\<forall>r \<in> set (jobs d). \<not> (cutoff s1 \<le> created r \<and> created r < cutoff s2)"
        using n by (simp add: none_created_between_def)
      show "filter (\<lambda>r. job_decision s1 r = Eligible) (jobs d) = []"
        using z 1 by (simp add: eligible_count_def)
    qed (rule still_skipped(1))
    with 1 show ?thesis by (simp add: eligible_count_def)
  next
    case 2
    have "filter (\<lambda>r. ad_hoc_command_decision s2 r = Eligible) (ad_hoc_commands d) = []"
    proof (rule filter_still_empty [where ca = "cutoff s1" and cb = "cutoff s2"
          and deca = "ad_hoc_command_decision s1"])
      show "\<forall>r \<in> set (ad_hoc_commands d). \<not> (cutoff s1 \<le> created r \<and> created r < cutoff s2)"
        using n by (simp add: none_created_between_def)
      show "filter (\<lambda>r. ad_hoc_command_decision s1 r = Eligible) (ad_hoc_commands d) = []"
        using z 2 by (simp add: eligible_count_def)
    qed (rule still_skipped(2))
    with 2 show ?thesis by (simp add: eligible_count_def)
  next
    case 3
    have "filter (\<lambda>r. project_update_decision s2 r = Eligible) (project_updates d) = []"
    proof (rule filter_still_empty [where ca = "cutoff s1" and cb = "cutoff s2"
          and deca = "project_update_decision s1"])
      show "\<forall>r \<in> set (project_updates d). \<not> (cutoff s1 \<le> created r \<and> created r < cutoff s2)"
        using n by (simp add: none_created_between_def)
      show "filter (\<lambda>r. project_update_decision s1 r = Eligible) (project_updates d) = []"
        using z 3 by (simp add: eligible_count_def)
    qed (rule still_skipped_project_update)
    with 3 show ?thesis by (simp add: eligible_count_def)
  next
    case 4
    have "filter (\<lambda>r. inventory_update_decision s2 r = Eligible) (inventory_updates d) = []"
    proof (rule filter_still_empty [where ca = "cutoff s1" and cb = "cutoff s2"
          and deca = "inventory_update_decision s1"])
      show "\<forall>r \<in> set (inventory_updates d). \<not> (cutoff s1 \<le> created r \<and> created r < cutoff s2)"
        using n by (simp add: none_created_between_def)
      show "filter (\<lambda>r. inventory_update_decision s1 r = Eligible) (inventory_updates d) = []"
        using z 4 by (simp add: eligible_count_def)
    qed (rule still_skipped_inventory_update)
    with 4 show ?thesis by (simp add: eligible_count_def)
  next
    case 5
    have "filter (\<lambda>r. management_job_decision s2 r = Eligible) (system_jobs d) = []"
    proof (rule filter_still_empty [where ca = "cutoff s1" and cb = "cutoff s2"
          and deca = "management_job_decision s1"])
      show "\<forall>r \<in> set (system_jobs d). \<not> (cutoff s1 \<le> created r \<and> created r < cutoff s2)"
        using n by (simp add: none_created_between_def)
      show "filter (\<lambda>r. management_job_decision s1 r = Eligible) (system_jobs d) = []"
        using z 5 by (simp add: eligible_count_def)
    qed (rule still_skipped(3))
    with 5 show ?thesis by (simp add: eligible_count_def)
  next
    case 6
    have "filter (\<lambda>r. workflow_job_decision s2 r = Eligible) (workflow_jobs d) = []"
    proof (rule filter_still_empty [where ca = "cutoff s1" and cb = "cutoff s2"
          and deca = "workflow_job_decision s1"])
      show "\<forall>r \<in> set (workflow_jobs d). \<not> (cutoff s1 \<le> created r \<and> created r < cutoff s2)"
        using n by (simp add: none_created_between_def)
      show "filter (\<lambda>r. workflow_job_decision s1 r = Eligible) (workflow_jobs d) = []"
        using z 6 by (simp add: eligible_count_def)
    qed (rule still_skipped(4))
    with 6 show ?thesis by (simp add: eligible_count_def)
  next
    case 7
    have "filter (\<lambda>r. notification_decision s2 r = Eligible) (notifications d) = []"
    proof (rule filter_still_empty [where ca = "cutoff s1" and cb = "cutoff s2"
          and deca = "notification_decision s1"])
      show "\<forall>r \<in> set (notifications d). \<not> (cutoff s1 \<le> created r \<and> created r < cutoff s2)"
        using n by (simp add: none_created_between_def)
      show "filter (\<lambda>r. notification_decision s1 r = Eligible) (notifications d) = []"
        using z 7 by (simp add: eligible_count_def)
    qed (rule still_skipped(5))
    with 7 show ?thesis by (simp add: eligible_count_def)
  next
    case 8
    then show ?thesis by (simp add: eligible_count_def model_names_def)
  qed
qed

lemmas decision_defs =
  job_decision_def ad_hoc_command_decision_def project_update_decision_def
  inventory_update_decision_def management_job_decision_def workflow_job_decision_def
  notification_decision_def

section \<open>The claims\<close>

text \<open>
  C5. For every category, each record is counted exactly once, in the skipped counter or
  in the deleted counter: the two counts a cleanup method returns add up to the number
  of records of its model in the database it was given.
\<close>

theorem every_record_counted_once:
  "(case cleanup_jobs self d of (d', skipped, deleted) \<Rightarrow>
      skipped + deleted = length (jobs d)) \<and>
   (case cleanup_ad_hoc_commands self d of (d', skipped, deleted) \<Rightarrow>
      skipped + deleted = length (ad_hoc_commands d)) \<and>
   (case cleanup_project_updates self d of (d', skipped, deleted) \<Rightarrow>
      skipped + deleted = length (project_updates d)) \<and>
   (case cleanup_inventory_updates self d of (d', skipped, deleted) \<Rightarrow>
      skipped + deleted = length (inventory_updates d)) \<and>
   (case cleanup_management_jobs self d of (d', skipped, deleted) \<Rightarrow>
      skipped + deleted = length (system_jobs d)) \<and>
   (case cleanup_workflow_jobs self d of (d', skipped, deleted) \<Rightarrow>
      skipped + deleted = length (workflow_jobs d)) \<and>
   (case cleanup_notifications self d of (d', skipped, deleted) \<Rightarrow>
      skipped + deleted = length (notifications d))"
  by (simp add: cleanup_jobs_closed cleanup_ad_hoc_commands_closed
      cleanup_project_updates_closed cleanup_inventory_updates_closed
      cleanup_management_jobs_closed cleanup_workflow_jobs_closed
      cleanup_notifications_closed length_skipped_eligible)

theorem every_record_counted_once_witness:
  "(case cleanup_jobs example_self example_db of (d', skipped, deleted) \<Rightarrow>
      skipped + deleted = 3) \<and>
   (case cleanup_ad_hoc_commands example_self example_db of (d', skipped, deleted) \<Rightarrow>
      skipped + deleted = 2) \<and>
   (case cleanup_project_updates example_self example_db of (d', skipped, deleted) \<Rightarrow>
      skipped + deleted = 4) \<and>
   (case cleanup_inventory_updates example_self example_db of (d', skipped, deleted) \<Rightarrow>
      skipped + deleted = 4) \<and>
   (case cleanup_management_jobs example_self example_db of (d', skipped, deleted) \<Rightarrow>
      skipped + deleted = 2) \<and>
   (case cleanup_workflow_jobs example_self example_db of (d', skipped, deleted) \<Rightarrow>
      skipped + deleted = 3) \<and>
   (case cleanup_notifications example_self example_db of (d', skipped, deleted) \<Rightarrow>
      skipped + deleted = 4)"
proof -
  have "length (jobs example_db) = 3" "length (ad_hoc_commands example_db) = 2"
    "length (project_updates example_db) = 4" "length (inventory_updates example_db) = 4"
    "length (system_jobs example_db) = 2" "length (workflow_jobs example_db) = 3"
    "length (notifications example_db) = 4"
    by (simp_all add: example_db_def)
  with every_record_counted_once [where self = example_self and d = example_db]
  show ?thesis by simp
qed

text \<open>
  C1. A record whose status is in its model's skipping statuses (pending, waiting,
  running; for a notification, pending) takes the first branch, whatever its age and
  whatever its parent points to. If it is in the table, it is one of the rows that the
  skipped counter returned by its cleanup method counts, which is therefore at least
  one, the deleted counter counts only rows on the deleting branch, and the record is
  still in its table when the method has run.
\<close>

theorem active_records_are_skipped:
  assumes "unique_pks d"
  shows
  "(status r \<in> {''pending'', ''waiting'', ''running''} \<longrightarrow>
      job_decision self r = SkipActive \<and>
      ad_hoc_command_decision self r = SkipActive \<and>
      management_job_decision self r = SkipActive \<and>
      workflow_job_decision self r = SkipActive \<and>
      (r \<in> set (jobs d) \<longrightarrow>
         r \<in> set (jobs (fst (cleanup_jobs self d))) \<and>
         snd (cleanup_jobs self d) =
           (length (filter (\<lambda>x. job_decision self x \<noteq> Eligible) (jobs d)),
            length (filter (\<lambda>x. job_decision self x = Eligible) (jobs d))) \<and>
         r \<in> set (filter (\<lambda>x. job_decision self x \<noteq> Eligible) (jobs d)) \<and>
         1 \<le> fst (snd (cleanup_jobs self d))) \<and>
      (r \<in> set (ad_hoc_commands d) \<longrightarrow>
         r \<in> set (ad_hoc_commands (fst (cleanup_ad_hoc_commands self d))) \<and>
         snd (cleanup_ad_hoc_commands self d) =
           (length (filter (\<lambda>x. ad_hoc_command_decision self x \<noteq> Eligible) (ad_hoc_commands d)),
            length (filter (\<lambda>x. ad_hoc_command_decision self x = Eligible) (ad_hoc_commands d))) \<and>
         r \<in> set (filter (\<lambda>x. ad_hoc_command_decision self x \<noteq> Eligible) (ad_hoc_commands d)) \<and>
         1 \<le> fst (snd (cleanup_ad_hoc_commands self d))) \<and>
      (r \<in> set (system_jobs d) \<longrightarrow>
         r \<in> set (system_jobs (fst (cleanup_management_jobs self d))) \<and>
         snd (cleanup_management_jobs self d) =
           (length (filter (\<lambda>x. management_job_decision self x \<noteq> Eligible) (system_jobs d)),
            length (filter (\<lambda>x. management_job_decision self x = Eligible) (system_jobs d))) \<and>
         r \<in> set (filter (\<lambda>x. management_job_decision self x \<noteq> Eligible) (system_jobs d)) \<and>
         1 \<le> fst (snd (cleanup_management_jobs self d))) \<and>
      (r \<in> set (workflow_jobs d) \<longrightarrow>
         r \<in> set (workflow_jobs (fst (cleanup_workflow_jobs self d))) \<and>
         snd (cleanup_workflow_jobs self d) =
           (length (filter (\<lambda>x. workflow_job_decision self x \<noteq> Eligible) (workflow_jobs d)),
            length (filter (\<lambda>x. workflow_job_decision self x = Eligible) (workflow_jobs d))) \<and>
         r \<in> set (filter (\<lambda>x. workflow_job_decision self x \<noteq> Eligible) (workflow_jobs d)) \<and>
         1 \<le> fst (snd (cleanup_workflow_jobs self d)))) \<and>
   (status pu \<in> {''pending'', ''waiting'', ''running''} \<longrightarrow>
      project_update_decision self pu = SkipActive \<and>
      (pu \<in> set (project_updates d) \<longrightarrow>
         pu \<in> set (project_updates (fst (cleanup_project_updates self d))) \<and>
         snd (cleanup_project_updates self d) =
           (length (filter (\<lambda>x. project_update_decision self x \<noteq> Eligible) (project_updates d)),
            length (filter (\<lambda>x. project_update_decision self x = Eligible) (project_updates d))) \<and>
         pu \<in> set (filter (\<lambda>x. project_update_decision self x \<noteq> Eligible) (project_updates d)) \<and>
         1 \<le> fst (snd (cleanup_project_updates self d)))) \<and>
   (status iu \<in> {''pending'', ''waiting'', ''running''} \<longrightarrow>
      inventory_update_decision self iu = SkipActive \<and>
      (iu \<in> set (inventory_updates d) \<longrightarrow>
         iu \<in> set (inventory_updates (fst (cleanup_inventory_updates self d))) \<and>
         snd (cleanup_inventory_updates self d) =
           (length (filter (\<lambda>x. inventory_update_decision self x \<noteq> Eligible) (inventory_updates d)),
            length (filter (\<lambda>x. inventory_update_decision self x = Eligible) (inventory_updates d))) \<and>
         iu \<in> set (filter (\<lambda>x. inventory_update_decision self x \<noteq> Eligible) (inventory_updates d)) \<and>
         1 \<le> fst (snd (cleanup_inventory_updates self d)))) \<and>
   (status n = ''pending'' \<longrightarrow>
      notification_decision self n = SkipActive \<and>
      (n \<in> set (notifications d) \<longrightarrow>
         n \<in> set (notifications (fst (cleanup_notifications self d))) \<and>
         snd (cleanup_notifications self d) =
           (length (filter (\<lambda>x. notification_decision self x \<noteq> Eligible) (notifications d)),
            length (filter (\<lambda>x. notification_decision self x = Eligible) (notifications d))) \<and>
         n \<in> set (filter (\<lambda>x. notification_decision self x \<noteq> Eligible) (notifications d)) \<and>
         1 \<le> fst (snd (cleanup_notifications self d)))) \<and>
   tally self SkipActive del (d, skipped, deleted) = (d, skipped + 1, deleted)"
proof -
  have rows: "job_decision self r = SkipActive" "ad_hoc_command_decision self r = SkipActive"
    "management_job_decision self r = SkipActive" "workflow_job_decision self r = SkipActive"
    if "status r \<in> {''pending'', ''waiting'', ''running''}"
    using that
    by (auto simp: job_decision_def ad_hoc_command_decision_def management_job_decision_def
        workflow_job_decision_def)
  have pu: "project_update_decision self pu = SkipActive"
    if "status pu \<in> {''pending'', ''waiting'', ''running''}"
    using that by (auto simp: project_update_decision_def)
  have iu: "inventory_update_decision self iu = SkipActive"
    if "status iu \<in> {''pending'', ''waiting'', ''running''}"
    using that by (auto simp: inventory_update_decision_def)
  have n: "notification_decision self n = SkipActive" if "status n = ''pending''"
    using that by (simp add: notification_decision_def)
  have J: "(r \<in> set (jobs d) \<longrightarrow>
         r \<in> set (jobs (fst (cleanup_jobs self d))) \<and>
         snd (cleanup_jobs self d) =
           (length (filter (\<lambda>x. job_decision self x \<noteq> Eligible) (jobs d)),
            length (filter (\<lambda>x. job_decision self x = Eligible) (jobs d))) \<and>
         r \<in> set (filter (\<lambda>x. job_decision self x \<noteq> Eligible) (jobs d)) \<and>
         1 \<le> fst (snd (cleanup_jobs self d)))"
    if "job_decision self r = SkipActive"
  proof
    assume "r \<in> set (jobs d)"
    with assms show "r \<in> set (jobs (fst (cleanup_jobs self d))) \<and>
         snd (cleanup_jobs self d) =
           (length (filter (\<lambda>x. job_decision self x \<noteq> Eligible) (jobs d)),
            length (filter (\<lambda>x. job_decision self x = Eligible) (jobs d))) \<and>
         r \<in> set (filter (\<lambda>x. job_decision self x \<noteq> Eligible) (jobs d)) \<and>
         1 \<le> fst (snd (cleanup_jobs self d))"
      by (rule cleanup_jobs_skips) (simp add: that)
  qed
  have H: "(r \<in> set (ad_hoc_commands d) \<longrightarrow>
         r \<in> set (ad_hoc_commands (fst (cleanup_ad_hoc_commands self d))) \<and>
         snd (cleanup_ad_hoc_commands self d) =
           (length (filter (\<lambda>x. ad_hoc_command_decision self x \<noteq> Eligible) (ad_hoc_commands d)),
            length (filter (\<lambda>x. ad_hoc_command_decision self x = Eligible) (ad_hoc_commands d))) \<and>
         r \<in> set (filter (\<lambda>x. ad_hoc_command_decision self x \<noteq> Eligible) (ad_hoc_commands d)) \<and>
         1 \<le> fst (snd (cleanup_ad_hoc_commands self d)))"
    if "ad_hoc_command_decision self r = SkipActive"
  proof
    assume "r \<in> set (ad_hoc_commands d)"
    with assms show "r \<in> set (ad_hoc_commands (fst (cleanup_ad_hoc_commands self d))) \<and>
         snd (cleanup_ad_hoc_commands self d) =
           (length (filter (\<lambda>x. ad_hoc_command_decision self x \<noteq> Eligible) (ad_hoc_commands d)),
            length (filter (\<lambda>x. ad_hoc_command_decision self x = Eligible) (ad_hoc_commands d))) \<and>
         r \<in> set (filter (\<lambda>x. ad_hoc_command_decision self x \<noteq> Eligible) (ad_hoc_commands d)) \<and>
         1 \<le> fst (snd (cleanup_ad_hoc_commands self d))"
      by (rule cleanup_ad_hoc_commands_skips) (simp add: that)
  qed
  have S: "(r \<in> set (system_jobs d) \<longrightarrow>
         r \<in> set (system_jobs (fst (cleanup_management_jobs self d))) \<and>
         snd (cleanup_management_jobs self d) =
           (length (filter (\<lambda>x. management_job_decision self x \<noteq> Eligible) (system_jobs d)),
            length (filter (\<lambda>x. management_job_decision self x = Eligible) (system_jobs d))) \<and>
         r \<in> set (filter (\<lambda>x. management_job_decision self x \<noteq> Eligible) (system_jobs d)) \<and>
         1 \<le> fst (snd (cleanup_management_jobs self d)))"
    if "management_job_decision self r = SkipActive"
  proof
    assume "r \<in> set (system_jobs d)"
    with assms show "r \<in> set (system_jobs (fst (cleanup_management_jobs self d))) \<and>
         snd (cleanup_management_jobs self d) =
           (length (filter (\<lambda>x. management_job_decision self x \<noteq> Eligible) (system_jobs d)),
            length (filter (\<lambda>x. management_job_decision self x = Eligible) (system_jobs d))) \<and>
         r \<in> set (filter (\<lambda>x. management_job_decision self x \<noteq> Eligible) (system_jobs d)) \<and>
         1 \<le> fst (snd (cleanup_management_jobs self d))"
      by (rule cleanup_management_jobs_skips) (simp add: that)
  qed
  have W: "(r \<in> set (workflow_jobs d) \<longrightarrow>
         r \<in> set (workflow_jobs (fst (cleanup_workflow_jobs self d))) \<and>
         snd (cleanup_workflow_jobs self d) =
           (length (filter (\<lambda>x. workflow_job_decision self x \<noteq> Eligible) (workflow_jobs d)),
            length (filter (\<lambda>x. workflow_job_decision self x = Eligible) (workflow_jobs d))) \<and>
         r \<in> set (filter (\<lambda>x. workflow_job_decision self x \<noteq> Eligible) (workflow_jobs d)) \<and>
         1 \<le> fst (snd (cleanup_workflow_jobs self d)))"
    if "workflow_job_decision self r = SkipActive"
  proof
    assume "r \<in> set (workflow_jobs d)"
    with assms show "r \<in> set (workflow_jobs (fst (cleanup_workflow_jobs self d))) \<and>
         snd (cleanup_workflow_jobs self d) =
           (length (filter (\<lambda>x. workflow_job_decision self x \<noteq> Eligible) (workflow_jobs d)),
            length (filter (\<lambda>x. workflow_job_decision self x = Eligible) (workflow_jobs d))) \<and>
         r \<in> set (filter (\<lambda>x. workflow_job_decision self x \<noteq> Eligible) (workflow_jobs d)) \<and>
         1 \<le> fst (snd (cleanup_workflow_jobs self d))"
      by (rule cleanup_workflow_jobs_skips) (simp add: that)
  qed
  have P: "(pu \<in> set (project_updates d) \<longrightarrow>
         pu \<in> set (project_updates (fst (cleanup_project_updates self d))) \<and>
         snd (cleanup_project_updates self d) =
           (length (filter (\<lambda>x. project_update_decision self x \<noteq> Eligible) (project_updates d)),
            length (filter (\<lambda>x. project_update_decision self x = Eligible) (project_updates d))) \<and>
         pu \<in> set (filter (\<lambda>x. project_update_decision self x \<noteq> Eligible) (project_updates d)) \<and>
         1 \<le> fst (snd (cleanup_project_updates self d)))"
    if "project_update_decision self pu = SkipActive"
  proof
    assume "pu \<in> set (project_updates d)"
    with assms show "pu \<in> set (project_updates (fst (cleanup_project_updates self d))) \<and>
         snd (cleanup_project_updates self d) =
           (length (filter (\<lambda>x. project_update_decision self x \<noteq> Eligible) (project_updates d)),
            length (filter (\<lambda>x. project_update_decision self x = Eligible) (project_updates d))) \<and>
         pu \<in> set (filter (\<lambda>x. project_update_decision self x \<noteq> Eligible) (project_updates d)) \<and>
         1 \<le> fst (snd (cleanup_project_updates self d))"
      by (rule cleanup_project_updates_skips) (simp add: that)
  qed
  have I: "(iu \<in> set (inventory_updates d) \<longrightarrow>
         iu \<in> set (inventory_updates (fst (cleanup_inventory_updates self d))) \<and>
         snd (cleanup_inventory_updates self d) =
           (length (filter (\<lambda>x. inventory_update_decision self x \<noteq> Eligible) (inventory_updates d)),
            length (filter (\<lambda>x. inventory_update_decision self x = Eligible) (inventory_updates d))) \<and>
         iu \<in> set (filter (\<lambda>x. inventory_update_decision self x \<noteq> Eligible) (inventory_updates d)) \<and>
         1 \<le> fst (snd (cleanup_inventory_updates self d)))"
    if "inventory_update_decision self iu = SkipActive"
  proof
    assume "iu \<in> set (inventory_updates d)"
    with assms show "iu \<in> set (inventory_updates (fst (cleanup_inventory_updates self d))) \<and>
         snd (cleanup_inventory_updates self d) =
           (length (filter (\<lambda>x. inventory_update_decision self x \<noteq> Eligible) (inventory_updates d)),
            length (filter (\<lambda>x. inventory_update_decision self x = Eligible) (inventory_updates d))) \<and>
         iu \<in> set (filter (\<lambda>x. inventory_update_decision self x \<noteq> Eligible) (inventory_updates d)) \<and>
         1 \<le> fst (snd (cleanup_inventory_updates self d))"
      by (rule cleanup_inventory_updates_skips) (simp add: that)
  qed
  have N: "(n \<in> set (notifications d) \<longrightarrow>
         n \<in> set (notifications (fst (cleanup_notifications self d))) \<and>
         snd (cleanup_notifications self d) =
           (length (filter (\<lambda>x. notification_decision self x \<noteq> Eligible) (notifications d)),
            length (filter (\<lambda>x. notification_decision self x = Eligible) (notifications d))) \<and>
         n \<in> set (filter (\<lambda>x. notification_decision self x \<noteq> Eligible) (notifications d)) \<and>
         1 \<le> fst (snd (cleanup_notifications self d)))"
    if "notification_decision self n = SkipActive"
  proof
    assume "n \<in> set (notifications d)"
    with assms show "n \<in> set (notifications (fst (cleanup_notifications self d))) \<and>
         snd (cleanup_notifications self d) =
           (length (filter (\<lambda>x. notification_decision self x \<noteq> Eligible) (notifications d)),
            length (filter (\<lambda>x. notification_decision self x = Eligible) (notifications d))) \<and>
         n \<in> set (filter (\<lambda>x. notification_decision self x \<noteq> Eligible) (notifications d)) \<and>
         1 \<le> fst (snd (cleanup_notifications self d))"
      by (rule cleanup_notifications_skips) (simp add: that)
  qed
  have R: "status r \<in> {''pending'', ''waiting'', ''running''} \<longrightarrow>
      job_decision self r = SkipActive \<and>
      ad_hoc_command_decision self r = SkipActive \<and>
      management_job_decision self r = SkipActive \<and>
      workflow_job_decision self r = SkipActive \<and>
      (r \<in> set (jobs d) \<longrightarrow>
         r \<in> set (jobs (fst (cleanup_jobs self d))) \<and>
         snd (cleanup_jobs self d) =
           (length (filter (\<lambda>x. job_decision self x \<noteq> Eligible) (jobs d)),
            length (filter (\<lambda>x. job_decision self x = Eligible) (jobs d))) \<and>
         r \<in> set (filter (\<lambda>x. job_decision self x \<noteq> Eligible) (jobs d)) \<and>
         1 \<le> fst (snd (cleanup_jobs self d))) \<and>
      (r \<in> set (ad_hoc_commands d) \<longrightarrow>
         r \<in> set (ad_hoc_commands (fst (cleanup_ad_hoc_commands self d))) \<and>
         snd (cleanup_ad_hoc_commands self d) =
           (length (filter (\<lambda>x. ad_hoc_command_decision self x \<noteq> Eligible) (ad_hoc_commands d)),
            length (filter (\<lambda>x. ad_hoc_command_decision self x = Eligible) (ad_hoc_commands d))) \<and>
         r \<in> set (filter (\<lambda>x. ad_hoc_command_decision self x \<noteq> Eligible) (ad_hoc_commands d)) \<and>
         1 \<le> fst (snd (cleanup_ad_hoc_commands self d))) \<and>
      (r \<in> set (system_jobs d) \<longrightarrow>
         r \<in> set (system_jobs (fst (cleanup_management_jobs self d))) \<and>
         snd (cleanup_management_jobs self d) =
           (length (filter (\<lambda>x. management_job_decision self x \<noteq> Eligible) (system_jobs d)),
            length (filter (\<lambda>x. management_job_decision self x = Eligible) (system_jobs d))) \<and>
         r \<in> set (filter (\<lambda>x. management_job_decision self x \<noteq> Eligible) (system_jobs d)) \<and>
         1 \<le> fst (snd (cleanup_management_jobs self d))) \<and>
      (r \<in> set (workflow_jobs d) \<longrightarrow>
         r \<in> set (workflow_jobs (fst (cleanup_workflow_jobs self d))) \<and>
         snd (cleanup_workflow_jobs self d) =
           (length (filter (\<lambda>x. workflow_job_decision self x \<noteq> Eligible) (workflow_jobs d)),
            length (filter (\<lambda>x. workflow_job_decision self x = Eligible) (workflow_jobs d))) \<and>
         r \<in> set (filter (\<lambda>x. workflow_job_decision self x \<noteq> Eligible) (workflow_jobs d)) \<and>
         1 \<le> fst (snd (cleanup_workflow_jobs self d)))"
  proof
    assume s: "status r \<in> {''pending'', ''waiting'', ''running''}"
    from rows [OF s] J [OF rows(1) [OF s]] H [OF rows(2) [OF s]] S [OF rows(3) [OF s]]
      W [OF rows(4) [OF s]]
    show "job_decision self r = SkipActive \<and>
      ad_hoc_command_decision self r = SkipActive \<and>
      management_job_decision self r = SkipActive \<and>
      workflow_job_decision self r = SkipActive \<and>
      (r \<in> set (jobs d) \<longrightarrow>
         r \<in> set (jobs (fst (cleanup_jobs self d))) \<and>
         snd (cleanup_jobs self d) =
           (length (filter (\<lambda>x. job_decision self x \<noteq> Eligible) (jobs d)),
            length (filter (\<lambda>x. job_decision self x = Eligible) (jobs d))) \<and>
         r \<in> set (filter (\<lambda>x. job_decision self x \<noteq> Eligible) (jobs d)) \<and>
         1 \<le> fst (snd (cleanup_jobs self d))) \<and>
      (r \<in> set (ad_hoc_commands d) \<longrightarrow>
         r \<in> set (ad_hoc_commands (fst (cleanup_ad_hoc_commands self d))) \<and>
         snd (cleanup_ad_hoc_commands self d) =
           (length (filter (\<lambda>x. ad_hoc_command_decision self x \<noteq> Eligible) (ad_hoc_commands d)),
            length (filter (\<lambda>x. ad_hoc_command_decision self x = Eligible) (ad_hoc_commands d))) \<and>
         r \<in> set (filter (\<lambda>x. ad_hoc_command_decision self x \<noteq> Eligible) (ad_hoc_commands d)) \<and>
         1 \<le> fst (snd (cleanup_ad_hoc_commands self d))) \<and>
      (r \<in> set (system_jobs d) \<longrightarrow>
         r \<in> set (system_jobs (fst (cleanup_management_jobs self d))) \<and>
         snd (cleanup_management_jobs self d) =
           (length (filter (\<lambda>x. management_job_decision self x \<noteq> Eligible) (system_jobs d)),
            length (filter (\<lambda>x. management_job_decision self x = Eligible) (system_jobs d))) \<and>
         r \<in> set (filter (\<lambda>x. management_job_decision self x \<noteq> Eligible) (system_jobs d)) \<and>
         1 \<le> fst (snd (cleanup_management_jobs self d))) \<and>
      (r \<in> set (workflow_jobs d) \<longrightarrow>
         r \<in> set (workflow_jobs (fst (cleanup_workflow_jobs self d))) \<and>
         snd (cleanup_workflow_jobs self d) =
           (length (filter (\<lambda>x. workflow_job_decision self x \<noteq> Eligible) (workflow_jobs d)),
            length (filter (\<lambda>x. workflow_job_decision self x = Eligible) (workflow_jobs d))) \<and>
         r \<in> set (filter (\<lambda>x. workflow_job_decision self x \<noteq> Eligible) (workflow_jobs d)) \<and>
         1 \<le> fst (snd (cleanup_workflow_jobs self d)))"
      by (intro conjI)
  qed
  have P': "status pu \<in> {''pending'', ''waiting'', ''running''} \<longrightarrow>
      project_update_decision self pu = SkipActive \<and>
      (pu \<in> set (project_updates d) \<longrightarrow>
         pu \<in> set (project_updates (fst (cleanup_project_updates self d))) \<and>
         snd (cleanup_project_updates self d) =
           (length (filter (\<lambda>x. project_update_decision self x \<noteq> Eligible) (project_updates d)),
            length (filter (\<lambda>x. project_update_decision self x = Eligible) (project_updates d))) \<and>
         pu \<in> set (filter (\<lambda>x. project_update_decision self x \<noteq> Eligible) (project_updates d)) \<and>
         1 \<le> fst (snd (cleanup_project_updates self d)))"
    using pu P by blast
  have I': "status iu \<in> {''pending'', ''waiting'', ''running''} \<longrightarrow>
      inventory_update_decision self iu = SkipActive \<and>
      (iu \<in> set (inventory_updates d) \<longrightarrow>
         iu \<in> set (inventory_updates (fst (cleanup_inventory_updates self d))) \<and>
         snd (cleanup_inventory_updates self d) =
           (length (filter (\<lambda>x. inventory_update_decision self x \<noteq> Eligible) (inventory_updates d)),
            length (filter (\<lambda>x. inventory_update_decision self x = Eligible) (inventory_updates d))) \<and>
         iu \<in> set (filter (\<lambda>x. inventory_update_decision self x \<noteq> Eligible) (inventory_updates d)) \<and>
         1 \<le> fst (snd (cleanup_inventory_updates self d)))"
    using iu I by blast
  have N': "status n = ''pending'' \<longrightarrow>
      notification_decision self n = SkipActive \<and>
      (n \<in> set (notifications d) \<longrightarrow>
         n \<in> set (notifications (fst (cleanup_notifications self d))) \<and>
         snd (cleanup_notifications self d) =
           (length (filter (\<lambda>x. notification_decision self x \<noteq> Eligible) (notifications d)),
            length (filter (\<lambda>x. notification_decision self x = Eligible) (notifications d))) \<and>
         n \<in> set (filter (\<lambda>x. notification_decision self x \<noteq> Eligible) (notifications d)) \<and>
         1 \<le> fst (snd (cleanup_notifications self d)))"
    using n N by blast
  have t: "tally self SkipActive del (d, skipped, deleted) = (d, skipped + 1, deleted)"
    by simp
  from R P' I' N' t show ?thesis
    by (intro conjI)
qed

theorem active_records_are_skipped_witness:
  "unique_pks example_db \<and>
   job_decision example_self job_running = SkipActive \<and>
   job_running \<in> set (jobs (fst (cleanup_jobs example_self example_db))) \<and>
   1 \<le> fst (snd (cleanup_jobs example_self example_db)) \<and>
   project_update_decision example_self pu_waiting = SkipActive \<and>
   pu_waiting \<in> set (project_updates (fst (cleanup_project_updates example_self example_db))) \<and>
   1 \<le> fst (snd (cleanup_project_updates example_self example_db)) \<and>
   inventory_update_decision example_self iu_running = SkipActive \<and>
   iu_running \<in> set (inventory_updates
     (fst (cleanup_inventory_updates example_self example_db))) \<and>
   1 \<le> fst (snd (cleanup_inventory_updates example_self example_db)) \<and>
   notification_decision example_self n_pending = SkipActive \<and>
   n_pending \<in> set (notifications (fst (cleanup_notifications example_self example_db))) \<and>
   1 \<le> fst (snd (cleanup_notifications example_self example_db))"
proof -
  have st: "status job_running \<in> {''pending'', ''waiting'', ''running''}"
    "status pu_waiting \<in> {''pending'', ''waiting'', ''running''}"
    "status iu_running \<in> {''pending'', ''waiting'', ''running''}"
    "status n_pending = ''pending''"
    by (simp_all add: example_rows)
  have mem: "job_running \<in> set (jobs example_db)" "pu_waiting \<in> set (project_updates example_db)"
    "iu_running \<in> set (inventory_updates example_db)" "n_pending \<in> set (notifications example_db)"
    by (simp_all add: example_db_def)
  note T = active_records_are_skipped [OF example_db_unique, where self = example_self
        and r = job_running and pu = pu_waiting and iu = iu_running and n = n_pending]
  from T st(1) mem(1) have a: "job_decision example_self job_running = SkipActive \<and>
      job_running \<in> set (jobs (fst (cleanup_jobs example_self example_db))) \<and>
      1 \<le> fst (snd (cleanup_jobs example_self example_db))"
    by blast
  from T st(2) mem(2) have b: "project_update_decision example_self pu_waiting = SkipActive \<and>
      pu_waiting \<in> set (project_updates
        (fst (cleanup_project_updates example_self example_db))) \<and>
      1 \<le> fst (snd (cleanup_project_updates example_self example_db))"
    by blast
  from T st(3) mem(3) have c: "inventory_update_decision example_self iu_running = SkipActive \<and>
      iu_running \<in> set (inventory_updates
        (fst (cleanup_inventory_updates example_self example_db))) \<and>
      1 \<le> fst (snd (cleanup_inventory_updates example_self example_db))"
    by blast
  from T st(4) mem(4) have e: "notification_decision example_self n_pending = SkipActive \<and>
      n_pending \<in> set (notifications (fst (cleanup_notifications example_self example_db))) \<and>
      1 \<le> fst (snd (cleanup_notifications example_self example_db))"
    by blast
  from example_db_unique a b c e show ?thesis
    by blast
qed

text \<open>
  C2. A project update (an inventory update) that is not pending, waiting or running
  and whose key is its project's (inventory source's) current or last update, while the
  parent's source type (source) is not empty, takes the second branch however old it
  is. If it is in the table, it is one of the rows that the skipped counter returned
  by its cleanup method counts, which is therefore at least one, the deleted counter
  counts only rows on the deleting branch, and the update is still in its table
  afterwards. The test comes after the status test, so an update in a skipping status
  takes the first branch even when its parent points to it, and before the age test,
  which is not consulted.
\<close>

theorem protected_updates_are_skipped:
  assumes "unique_pks d"
  shows
  "(status pu \<notin> {''pending'', ''waiting'', ''running''} \<and>
    (current_update (project pu) = Some (pk pu) \<or> last_update (project pu) = Some (pk pu)) \<and>
    scm_type (project pu) \<noteq> [] \<longrightarrow>
      project_update_decision self pu = SkipProtected \<and>
      (pu \<in> set (project_updates d) \<longrightarrow>
         pu \<in> set (project_updates (fst (cleanup_project_updates self d))) \<and>
         snd (cleanup_project_updates self d) =
           (length (filter (\<lambda>x. project_update_decision self x \<noteq> Eligible) (project_updates d)),
            length (filter (\<lambda>x. project_update_decision self x = Eligible) (project_updates d))) \<and>
         pu \<in> set (filter (\<lambda>x. project_update_decision self x \<noteq> Eligible) (project_updates d)) \<and>
         1 \<le> fst (snd (cleanup_project_updates self d)))) \<and>
   (status iu \<notin> {''pending'', ''waiting'', ''running''} \<and>
    (current_update (inventory_source iu) = Some (pk iu) \<or>
     last_update (inventory_source iu) = Some (pk iu)) \<and>
    source (inventory_source iu) \<noteq> [] \<longrightarrow>
      inventory_update_decision self iu = SkipProtected \<and>
      (iu \<in> set (inventory_updates d) \<longrightarrow>
         iu \<in> set (inventory_updates (fst (cleanup_inventory_updates self d))) \<and>
         snd (cleanup_inventory_updates self d) =
           (length (filter (\<lambda>x. inventory_update_decision self x \<noteq> Eligible) (inventory_updates d)),
            length (filter (\<lambda>x. inventory_update_decision self x = Eligible) (inventory_updates d))) \<and>
         iu \<in> set (filter (\<lambda>x. inventory_update_decision self x \<noteq> Eligible) (inventory_updates d)) \<and>
         1 \<le> fst (snd (cleanup_inventory_updates self d)))) \<and>
   (status pu \<in> {''pending'', ''waiting'', ''running''} \<longrightarrow>
      project_update_decision self pu = SkipActive) \<and>
   (status iu \<in> {''pending'', ''waiting'', ''running''} \<longrightarrow>
      inventory_update_decision self iu = SkipActive) \<and>
   tally self SkipProtected del (d, skipped, deleted) = (d, skipped + 1, deleted)"
proof -
  have pu: "project_update_decision self pu = SkipProtected"
    if "status pu \<notin> {''pending'', ''waiting'', ''running''} \<and>
    (current_update (project pu) = Some (pk pu) \<or> last_update (project pu) = Some (pk pu)) \<and>
    scm_type (project pu) \<noteq> []"
    using that by (auto simp: project_update_decision_def)
  have iu: "inventory_update_decision self iu = SkipProtected"
    if "status iu \<notin> {''pending'', ''waiting'', ''running''} \<and>
    (current_update (inventory_source iu) = Some (pk iu) \<or>
     last_update (inventory_source iu) = Some (pk iu)) \<and>
    source (inventory_source iu) \<noteq> []"
    using that by (auto simp: inventory_update_decision_def)
  have act: "status pu \<in> {''pending'', ''waiting'', ''running''} \<longrightarrow>
      project_update_decision self pu = SkipActive"
    "status iu \<in> {''pending'', ''waiting'', ''running''} \<longrightarrow>
      inventory_update_decision self iu = SkipActive"
    by (auto simp: project_update_decision_def inventory_update_decision_def)
  have P: "(pu \<in> set (project_updates d) \<longrightarrow>
         pu \<in> set (project_updates (fst (cleanup_project_updates self d))) \<and>
         snd (cleanup_project_updates self d) =
           (length (filter (\<lambda>x. project_update_decision self x \<noteq> Eligible) (project_updates d)),
            length (filter (\<lambda>x. project_update_decision self x = Eligible) (project_updates d))) \<and>
         pu \<in> set (filter (\<lambda>x. project_update_decision self x \<noteq> Eligible) (project_updates d)) \<and>
         1 \<le> fst (snd (cleanup_project_updates self d)))"
    if "project_update_decision self pu = SkipProtected"
  proof
    assume "pu \<in> set (project_updates d)"
    with assms show "pu \<in> set (project_updates (fst (cleanup_project_updates self d))) \<and>
         snd (cleanup_project_updates self d) =
           (length (filter (\<lambda>x. project_update_decision self x \<noteq> Eligible) (project_updates d)),
            length (filter (\<lambda>x. project_update_decision self x = Eligible) (project_updates d))) \<and>
         pu \<in> set (filter (\<lambda>x. project_update_decision self x \<noteq> Eligible) (project_updates d)) \<and>
         1 \<le> fst (snd (cleanup_project_updates self d))"
      by (rule cleanup_project_updates_skips) (simp add: that)
  qed
  have I: "(iu \<in> set (inventory_updates d) \<longrightarrow>
         iu \<in> set (inventory_updates (fst (cleanup_inventory_updates self d))) \<and>
         snd (cleanup_inventory_updates self d) =
           (length (filter (\<lambda>x. inventory_update_decision self x \<noteq> Eligible) (inventory_updates d)),
            length (filter (\<lambda>x. inventory_update_decision self x = Eligible) (inventory_updates d))) \<and>
         iu \<in> set (filter (\<lambda>x. inventory_update_decision self x \<noteq> Eligible) (inventory_updates d)) \<and>
         1 \<le> fst (snd (cleanup_inventory_updates self d)))"
    if "inventory_update_decision self iu = SkipProtected"
  proof
    assume "iu \<in> set (inventory_updates d)"
    with assms show "iu \<in> set (inventory_updates (fst (cleanup_inventory_updates self d))) \<and>
         snd (cleanup_inventory_updates self d) =
           (length (filter (\<lambda>x. inventory_update_decision self x \<noteq> Eligible) (inventory_updates d)),
            length (filter (\<lambda>x. inventory_update_decision self x = Eligible) (inventory_updates d))) \<and>
         iu \<in> set (filter (\<lambda>x. inventory_update_decision self x \<noteq> Eligible) (inventory_updates d)) \<and>
         1 \<le> fst (snd (cleanup_inventory_updates self d))"
      by (rule cleanup_inventory_updates_skips) (simp add: that)
  qed
  have P': "status pu \<notin> {''pending'', ''waiting'', ''running''} \<and>
    (current_update (project pu) = Some (pk pu) \<or> last_update (project pu) = Some (pk pu)) \<and>
    scm_type (project pu) \<noteq> [] \<longrightarrow>
      project_update_decision self pu = SkipProtected \<and>
      (pu \<in> set (project_updates d) \<longrightarrow>
         pu \<in> set (project_updates (fst (cleanup_project_updates self d))) \<and>
         snd (cleanup_project_updates self d) =
           (length (filter (\<lambda>x. project_update_decision self x \<noteq> Eligible) (project_updates d)),
            length (filter (\<lambda>x. project_update_decision self x = Eligible) (project_updates d))) \<and>
         pu \<in> set (filter (\<lambda>x. project_update_decision self x \<noteq> Eligible) (project_updates d)) \<and>
         1 \<le> fst (snd (cleanup_project_updates self d)))"
    using pu P by blast
  have I': "status iu \<notin> {''pending'', ''waiting'', ''running''} \<and>
    (current_update (inventory_source iu) = Some (pk iu) \<or>
     last_update (inventory_source iu) = Some (pk iu)) \<and>
    source (inventory_source iu) \<noteq> [] \<longrightarrow>
      inventory_update_decision self iu = SkipProtected \<and>
      (iu \<in> set (inventory_updates d) \<longrightarrow>
         iu \<in> set (inventory_updates (fst (cleanup_inventory_updates self d))) \<and>
         snd (cleanup_inventory_updates self d) =
           (length (filter (\<lambda>x. inventory_update_decision self x \<noteq> Eligible) (inventory_updates d)),
            length (filter (\<lambda>x. inventory_update_decision self x = Eligible) (inventory_updates d))) \<and>
         iu \<in> set (filter (\<lambda>x. inventory_update_decision self x \<noteq> Eligible) (inventory_updates d)) \<and>
         1 \<le> fst (snd (cleanup_inventory_updates self d)))"
    using iu I by blast
  have t: "tally self SkipProtected del (d, skipped, deleted) = (d, skipped + 1, deleted)"
    by simp
  from P' I' act t show ?thesis
    by (intro conjI)
qed

theorem protected_updates_are_skipped_witness:
  "unique_pks example_db \<and>
   created pu_current < cutoff example_self \<and>
   project_update_decision example_self pu_current = SkipProtected \<and>
   pu_current \<in> set (project_updates (fst (cleanup_project_updates example_self example_db))) \<and>
   1 \<le> fst (snd (cleanup_project_updates example_self example_db)) \<and>
   created iu_last < cutoff example_self \<and>
   inventory_update_decision example_self iu_last = SkipProtected \<and>
   iu_last \<in> set (inventory_updates
     (fst (cleanup_inventory_updates example_self example_db))) \<and>
   1 \<le> fst (snd (cleanup_inventory_updates example_self example_db)) \<and>
   last_update (project pu_waiting) = Some (pk pu_waiting) \<and>
   project_update_decision example_self pu_waiting = SkipActive"
proof -
  have pre: "status pu_current \<notin> {''pending'', ''waiting'', ''running''}"
    "current_update (project pu_current) = Some (pk pu_current)"
    "scm_type (project pu_current) \<noteq> []"
    "status iu_last \<notin> {''pending'', ''waiting'', ''running''}"
    "last_update (inventory_source iu_last) = Some (pk iu_last)"
    "source (inventory_source iu_last) \<noteq> []"
    "status pu_waiting \<in> {''pending'', ''waiting'', ''running''}"
    "last_update (project pu_waiting) = Some (pk pu_waiting)"
    "created pu_current < cutoff example_self" "created iu_last < cutoff example_self"
    by (simp_all add: example_rows example_self_def)
  have mem: "pu_current \<in> set (project_updates example_db)"
    "iu_last \<in> set (inventory_updates example_db)"
    by (simp_all add: example_db_def)
  note T = protected_updates_are_skipped [OF example_db_unique, where self = example_self
        and pu = pu_current and iu = iu_last]
  note U = protected_updates_are_skipped [OF example_db_unique, where self = example_self
        and pu = pu_waiting and iu = iu_last]
  from T pre(1,2,3) mem(1)
  have a: "project_update_decision example_self pu_current = SkipProtected \<and>
      pu_current \<in> set (project_updates
        (fst (cleanup_project_updates example_self example_db))) \<and>
      1 \<le> fst (snd (cleanup_project_updates example_self example_db))"
    by blast
  from T pre(4,5,6) mem(2)
  have b: "inventory_update_decision example_self iu_last = SkipProtected \<and>
      iu_last \<in> set (inventory_updates
        (fst (cleanup_inventory_updates example_self example_db))) \<and>
      1 \<le> fst (snd (cleanup_inventory_updates example_self example_db))"
    by blast
  from U pre(7) have c: "project_update_decision example_self pu_waiting = SkipActive"
    by blast
  from example_db_unique a b c pre(8,9,10) show ?thesis
    by blast
qed

text \<open>
C3. A record that passes the status test and the test of its parent's pointers
  and whose creation time is at or after the cutoff takes the age branch: it is
  counted as skipped and is still in its table afterwards. Only a record created
  strictly before the cutoff reaches the deleting branch; a record created exactly at
  the cutoff is skipped.
\<close>

theorem recent_records_are_skipped:
  assumes "unique_pks d"
  shows
  "(status r \<notin> {''pending'', ''waiting'', ''running''} \<and> created r \<ge> cutoff self \<longrightarrow>
      job_decision self r = SkipRecent \<and>
      ad_hoc_command_decision self r = SkipRecent \<and>
      management_job_decision self r = SkipRecent \<and>
      workflow_job_decision self r = SkipRecent \<and>
      (r \<in> set (jobs d) \<longrightarrow> r \<in> set (jobs (fst (cleanup_jobs self d)))) \<and>
      (r \<in> set (ad_hoc_commands d) \<longrightarrow>
         r \<in> set (ad_hoc_commands (fst (cleanup_ad_hoc_commands self d)))) \<and>
      (r \<in> set (system_jobs d) \<longrightarrow>
         r \<in> set (system_jobs (fst (cleanup_management_jobs self d)))) \<and>
      (r \<in> set (workflow_jobs d) \<longrightarrow>
         r \<in> set (workflow_jobs (fst (cleanup_workflow_jobs self d))))) \<and>
   (status n \<noteq> ''pending'' \<and> created n \<ge> cutoff self \<longrightarrow>
      notification_decision self n = SkipRecent \<and>
      (n \<in> set (notifications d) \<longrightarrow>
         n \<in> set (notifications (fst (cleanup_notifications self d))))) \<and>
   (status pu \<notin> {''pending'', ''waiting'', ''running''} \<and>
    \<not> ((current_update (project pu) = Some (pk pu) \<or> last_update (project pu) = Some (pk pu))
       \<and> scm_type (project pu) \<noteq> []) \<and>
    created pu \<ge> cutoff self \<longrightarrow>
      project_update_decision self pu = SkipRecent \<and>
      (pu \<in> set (project_updates d) \<longrightarrow>
         pu \<in> set (project_updates (fst (cleanup_project_updates self d))))) \<and>
   (status iu \<notin> {''pending'', ''waiting'', ''running''} \<and>
    \<not> ((current_update (inventory_source iu) = Some (pk iu) \<or>
         last_update (inventory_source iu) = Some (pk iu))
       \<and> source (inventory_source iu) \<noteq> []) \<and>
    created iu \<ge> cutoff self \<longrightarrow>
      inventory_update_decision self iu = SkipRecent \<and>
      (iu \<in> set (inventory_updates d) \<longrightarrow>
         iu \<in> set (inventory_updates (fst (cleanup_inventory_updates self d))))) \<and>
   (job_decision self r = Eligible \<longrightarrow> created r < cutoff self) \<and>
   (ad_hoc_command_decision self r = Eligible \<longrightarrow> created r < cutoff self) \<and>
   (management_job_decision self r = Eligible \<longrightarrow> created r < cutoff self) \<and>
   (workflow_job_decision self r = Eligible \<longrightarrow> created r < cutoff self) \<and>
   (notification_decision self n = Eligible \<longrightarrow> created n < cutoff self) \<and>
   (project_update_decision self pu = Eligible \<longrightarrow> created pu < cutoff self) \<and>
   (inventory_update_decision self iu = Eligible \<longrightarrow> created iu < cutoff self) \<and>
   tally self SkipRecent del (d, skipped, deleted) = (d, skipped + 1, deleted)"
proof -
  have rows: "job_decision self r = SkipRecent" "ad_hoc_command_decision self r = SkipRecent"
    "management_job_decision self r = SkipRecent" "workflow_job_decision self r = SkipRecent"
    if "status r \<notin> {''pending'', ''waiting'', ''running''}" "created r \<ge> cutoff self"
    using that
    by (auto simp: job_decision_def ad_hoc_command_decision_def management_job_decision_def
        workflow_job_decision_def)
  have n: "notification_decision self n = SkipRecent"
    if "status n \<noteq> ''pending''" "created n \<ge> cutoff self"
    using that by (simp add: notification_decision_def)
  have pu: "project_update_decision self pu = SkipRecent"
    if "status pu \<notin> {''pending'', ''waiting'', ''running''}"
      "\<not> ((current_update (project pu) = Some (pk pu) \<or> last_update (project pu) = Some (pk pu))
         \<and> scm_type (project pu) \<noteq> [])"
      "created pu \<ge> cutoff self"
    using that by (auto simp: project_update_decision_def)
  have iu: "inventory_update_decision self iu = SkipRecent"
    if "status iu \<notin> {''pending'', ''waiting'', ''running''}"
      "\<not> ((current_update (inventory_source iu) = Some (pk iu) \<or>
           last_update (inventory_source iu) = Some (pk iu))
         \<and> source (inventory_source iu) \<noteq> [])"
      "created iu \<ge> cutoff self"
    using that by (auto simp: inventory_update_decision_def)
  have el: "job_decision self r = Eligible \<longrightarrow> created r < cutoff self"
    "ad_hoc_command_decision self r = Eligible \<longrightarrow> created r < cutoff self"
    "management_job_decision self r = Eligible \<longrightarrow> created r < cutoff self"
    "workflow_job_decision self r = Eligible \<longrightarrow> created r < cutoff self"
    "notification_decision self n = Eligible \<longrightarrow> created n < cutoff self"
    "project_update_decision self pu = Eligible \<longrightarrow> created pu < cutoff self"
    "inventory_update_decision self iu = Eligible \<longrightarrow> created iu < cutoff self"
    by (auto simp: job_decision_def ad_hoc_command_decision_def management_job_decision_def
        workflow_job_decision_def notification_decision_def project_update_decision_def
        inventory_update_decision_def split: if_splits)
  have keep: "r \<in> set (jobs (fst (cleanup_jobs self d)))"
    if "job_decision self r = SkipRecent" "r \<in> set (jobs d)" for r
    using that assms by (simp add: cleanup_jobs_keeps)
  have keep2: "r \<in> set (ad_hoc_commands (fst (cleanup_ad_hoc_commands self d)))"
    if "ad_hoc_command_decision self r = SkipRecent" "r \<in> set (ad_hoc_commands d)" for r
    using that assms by (simp add: cleanup_ad_hoc_commands_keeps)
  have keep3: "r \<in> set (system_jobs (fst (cleanup_management_jobs self d)))"
    if "management_job_decision self r = SkipRecent" "r \<in> set (system_jobs d)" for r
    using that assms by (simp add: cleanup_management_jobs_keeps)
  have keep4: "r \<in> set (workflow_jobs (fst (cleanup_workflow_jobs self d)))"
    if "workflow_job_decision self r = SkipRecent" "r \<in> set (workflow_jobs d)" for r
    using that assms by (simp add: cleanup_workflow_jobs_keeps)
  have keep5: "r \<in> set (notifications (fst (cleanup_notifications self d)))"
    if "notification_decision self r = SkipRecent" "r \<in> set (notifications d)" for r
    using that assms by (simp add: cleanup_notifications_keeps)
  have keep6: "pu \<in> set (project_updates (fst (cleanup_project_updates self d)))"
    if "project_update_decision self pu = SkipRecent" "pu \<in> set (project_updates d)"
    using that assms by (simp add: cleanup_project_updates_keeps)
  have keep7: "iu \<in> set (inventory_updates (fst (cleanup_inventory_updates self d)))"
    if "inventory_update_decision self iu = SkipRecent" "iu \<in> set (inventory_updates d)"
    using that assms by (simp add: cleanup_inventory_updates_keeps)
  have t: "tally self SkipRecent del (d, skipped, deleted) = (d, skipped + 1, deleted)"
    by simp
  have A: "status r \<notin> {''pending'', ''waiting'', ''running''} \<and> created r \<ge> cutoff self \<longrightarrow>
      job_decision self r = SkipRecent \<and>
      ad_hoc_command_decision self r = SkipRecent \<and>
      management_job_decision self r = SkipRecent \<and>
      workflow_job_decision self r = SkipRecent \<and>
      (r \<in> set (jobs d) \<longrightarrow> r \<in> set (jobs (fst (cleanup_jobs self d)))) \<and>
      (r \<in> set (ad_hoc_commands d) \<longrightarrow>
         r \<in> set (ad_hoc_commands (fst (cleanup_ad_hoc_commands self d)))) \<and>
      (r \<in> set (system_jobs d) \<longrightarrow>
         r \<in> set (system_jobs (fst (cleanup_management_jobs self d)))) \<and>
      (r \<in> set (workflow_jobs d) \<longrightarrow>
         r \<in> set (workflow_jobs (fst (cleanup_workflow_jobs self d))))"
    using rows keep keep2 keep3 keep4 by blast
  have B: "status n \<noteq> ''pending'' \<and> created n \<ge> cutoff self \<longrightarrow>
      notification_decision self n = SkipRecent \<and>
      (n \<in> set (notifications d) \<longrightarrow>
         n \<in> set (notifications (fst (cleanup_notifications self d))))"
    using n keep5 by blast
  from A B pu iu keep6 keep7 el t show ?thesis
    by blast
qed


theorem recent_records_are_skipped_witness:
  "unique_pks example_db \<and>
   job_decision example_self job_recent = SkipRecent \<and>
   job_recent \<in> set (jobs (fst (cleanup_jobs example_self example_db))) \<and>
   notification_decision example_self n_recent = SkipRecent \<and>
   n_recent \<in> set (notifications (fst (cleanup_notifications example_self example_db))) \<and>
   created pu_boundary = cutoff example_self \<and>
   project_update_decision example_self pu_boundary = SkipRecent \<and>
   pu_boundary \<in> set (project_updates
     (fst (cleanup_project_updates example_self example_db))) \<and>
   inventory_update_decision example_self iu_recent = SkipRecent \<and>
   iu_recent \<in> set (inventory_updates
     (fst (cleanup_inventory_updates example_self example_db))) \<and>
   job_decision example_self job_old = Eligible \<and> created job_old < cutoff example_self"
proof -
  have pre: "status job_recent \<notin> {''pending'', ''waiting'', ''running''}"
    "created job_recent \<ge> cutoff example_self"
    "status n_recent \<noteq> ''pending''" "created n_recent \<ge> cutoff example_self"
    "status pu_boundary \<notin> {''pending'', ''waiting'', ''running''}"
    "\<not> ((current_update (project pu_boundary) = Some (pk pu_boundary) \<or>
         last_update (project pu_boundary) = Some (pk pu_boundary))
       \<and> scm_type (project pu_boundary) \<noteq> [])"
    "created pu_boundary \<ge> cutoff example_self"
    "created pu_boundary = cutoff example_self"
    "status iu_recent \<notin> {''pending'', ''waiting'', ''running''}"
    "\<not> ((current_update (inventory_source iu_recent) = Some (pk iu_recent) \<or>
         last_update (inventory_source iu_recent) = Some (pk iu_recent))
       \<and> source (inventory_source iu_recent) \<noteq> [])"
    "created iu_recent \<ge> cutoff example_self"
    by (simp_all add: example_rows example_self_def)
  have el: "job_decision example_self job_old = Eligible"
    by (simp add: job_decision_def example_rows example_self_def)
  have mem: "job_recent \<in> set (jobs example_db)" "n_recent \<in> set (notifications example_db)"
    "pu_boundary \<in> set (project_updates example_db)"
    "iu_recent \<in> set (inventory_updates example_db)"
    by (simp_all add: example_db_def)
  have a: "job_decision example_self job_recent = SkipRecent \<and>
     job_recent \<in> set (jobs (fst (cleanup_jobs example_self example_db))) \<and>
     notification_decision example_self n_recent = SkipRecent \<and>
     n_recent \<in> set (notifications (fst (cleanup_notifications example_self example_db))) \<and>
     project_update_decision example_self pu_boundary = SkipRecent \<and>
     pu_boundary \<in> set (project_updates
       (fst (cleanup_project_updates example_self example_db))) \<and>
     inventory_update_decision example_self iu_recent = SkipRecent \<and>
     iu_recent \<in> set (inventory_updates
       (fst (cleanup_inventory_updates example_self example_db)))"
    using recent_records_are_skipped [OF example_db_unique, where self = example_self
        and r = job_recent and n = n_recent and pu = pu_boundary and iu = iu_recent]
      pre mem
    by simp
  have b: "created job_old < cutoff example_self"
    using recent_records_are_skipped [OF example_db_unique, where self = example_self
        and r = job_old and n = n_recent and pu = pu_boundary and iu = iu_recent] el
    by simp
  from a b el pre(8) example_db_unique show ?thesis
    by simp
qed

text \<open>
C8. For a notification only the status pending leads to the first branch. A
  notification in any other status, waiting and running included, that is older than
  the cutoff (created before it; a record created at or after the cutoff is what the
  age test calls recent) reaches the deleting branch and, unless the run is a dry run,
  is no longer in the table afterwards. The other six loops skip waiting and running
  records.
\<close>

theorem notifications_skip_pending_only:
  "(notification_decision self n = SkipActive \<longleftrightarrow> status n = ''pending'') \<and>
   (status n \<noteq> ''pending'' \<and> created n < cutoff self \<longrightarrow>
      notification_decision self n = Eligible \<and>
      (\<not> dry_run self \<longrightarrow>
         n \<notin> set (notifications (fst (cleanup_notifications self d))))) \<and>
   (status n \<in> {''waiting'', ''running''} \<longrightarrow>
      job_decision self n = SkipActive \<and>
      ad_hoc_command_decision self n = SkipActive \<and>
      management_job_decision self n = SkipActive \<and>
      workflow_job_decision self n = SkipActive) \<and>
   (status pu \<in> {''waiting'', ''running''} \<longrightarrow>
      project_update_decision self pu = SkipActive) \<and>
   (status iu \<in> {''waiting'', ''running''} \<longrightarrow>
      inventory_update_decision self iu = SkipActive) \<and>
   tally self Eligible del (d, skipped, deleted) =
     ((if dry_run self then d else del d), skipped, deleted + 1)"
proof -
  have a: "notification_decision self n = SkipActive \<longleftrightarrow> status n = ''pending''"
    by (simp add: notification_decision_def)
  have b: "notification_decision self n = Eligible"
    if "status n \<noteq> ''pending''" "created n < cutoff self"
    using that by (simp add: notification_decision_def)
  have c: "n \<notin> set (notifications (fst (cleanup_notifications self d)))"
    if "notification_decision self n = Eligible" "\<not> dry_run self"
    using that by (simp add: cleanup_notifications_removes)
  have e: "status n \<in> {''waiting'', ''running''} \<longrightarrow>
      job_decision self n = SkipActive \<and>
      ad_hoc_command_decision self n = SkipActive \<and>
      management_job_decision self n = SkipActive \<and>
      workflow_job_decision self n = SkipActive"
    "status pu \<in> {''waiting'', ''running''} \<longrightarrow> project_update_decision self pu = SkipActive"
    "status iu \<in> {''waiting'', ''running''} \<longrightarrow> inventory_update_decision self iu = SkipActive"
    by (auto simp: job_decision_def ad_hoc_command_decision_def management_job_decision_def
        workflow_job_decision_def project_update_decision_def inventory_update_decision_def)
  have t: "tally self Eligible del (d, skipped, deleted) =
     ((if dry_run self then d else del d), skipped, deleted + 1)"
    by simp
  from a b c e t show ?thesis
    by blast
qed

theorem notifications_skip_pending_only_witness:
  "status n_running = ''running'' \<and>
   notification_decision example_self n_running = Eligible \<and>
   n_running \<in> set (notifications example_db) \<and>
   n_running \<notin> set (notifications (fst (cleanup_notifications example_self example_db))) \<and>
   job_decision example_self n_running = SkipActive \<and>
   notification_decision example_self n_pending = SkipActive \<and>
   project_update_decision example_self pu_waiting = SkipActive \<and>
   inventory_update_decision example_self iu_running = SkipActive"
proof -
  have pre: "status n_running \<noteq> ''pending''" "created n_running < cutoff example_self"
    "\<not> dry_run example_self" "status n_running \<in> {''waiting'', ''running''}"
    "status n_running = ''running''" "status n_pending = ''pending''"
    "status pu_waiting \<in> {''waiting'', ''running''}"
    "status iu_running \<in> {''waiting'', ''running''}"
    by (simp_all add: example_rows example_self_def)
  have mem: "n_running \<in> set (notifications example_db)"
    by (simp add: example_db_def)
  have a: "notification_decision example_self n_running = Eligible \<and>
     n_running \<notin> set (notifications (fst (cleanup_notifications example_self example_db))) \<and>
     job_decision example_self n_running = SkipActive \<and>
     project_update_decision example_self pu_waiting = SkipActive \<and>
     inventory_update_decision example_self iu_running = SkipActive"
    using notifications_skip_pending_only [where self = example_self and n = n_running
        and d = example_db and pu = pu_waiting and iu = iu_running] pre
    by auto
  have b: "notification_decision example_self n_pending = SkipActive"
    using notifications_skip_pending_only [where self = example_self and n = n_pending
        and d = example_db and pu = pu_waiting and iu = iu_running] pre(6)
    by simp
  from a b pre(5) mem show ?thesis
    by simp
qed

text \<open>
  C6, as amended. The clock reads a time that a datetime can hold. If the clock's
  reading minus the requested number of days lies outside the range of datetime, the
  body of the command ends with the CommandError whatever the tables hold, so before
  any record is read or deleted; the decorated command has by then opened the
  connection and begun the transaction, which it rolls back, and returns the database
  as it was. That is the case for 999999 days at any clock reading earlier than 999999
  days after 0001-01-01, the year 2738. On a database that cannot be reached the
  connection's error is raised first. If the difference is in range, the run succeeds,
  commits, and its cutoff is the clock's reading minus that many days.
\<close>

theorem overflow_is_an_error_inside_the_transaction:
  assumes "0 \<le> now" "now < datetime_span"
  shows
  "(\<not> (0 \<le> now - py_int (get options ''days'' (PyInt 90)) * us_per_day \<and>
       now - py_int (get options ''days'' (PyInt 90)) * us_per_day < datetime_span) \<longrightarrow>
      (\<forall>d. handle_noargs options now d = Inl (CommandError
         ''--days specified is too large. Try something less than 99999 (about 270 years).'') \<and>
         atomic_handle_noargs options now True d =
           ([Connect, Begin, Rollback], d, Inl (CommandError
         ''--days specified is too large. Try something less than 99999 (about 270 years).'')))) \<and>
   (py_int (get options ''days'' (PyInt 90)) = 999999 \<and> now < 999999 * us_per_day \<longrightarrow>
      (\<forall>d. handle_noargs options now d = Inl (CommandError
         ''--days specified is too large. Try something less than 99999 (about 270 years).'') \<and>
         atomic_handle_noargs options now True d =
           ([Connect, Begin, Rollback], d, Inl (CommandError
         ''--days specified is too large. Try something less than 99999 (about 270 years).'')))) \<and>
   (\<forall>d. atomic_handle_noargs options now False d = ([Connect], d, Inl OperationalError)) \<and>
   (0 \<le> now - py_int (get options ''days'' (PyInt 90)) * us_per_day \<and>
    now - py_int (get options ''days'' (PyInt 90)) * us_per_day < datetime_span \<longrightarrow>
      (\<exists>self d' out. handle_noargs options now d = Inr (self, d', out) \<and>
         atomic_handle_noargs options now True d = ([Connect, Begin, Commit], d', Inr (self, out)) \<and>
         cutoff self = now - py_int (get options ''days'' (PyInt 90)) * us_per_day \<and>
         days self = py_int (get options ''days'' (PyInt 90))))"
  by (simp add: atomic_handle_noargs_def handle_noargs_closed cutoff_in_range [OF assms])

theorem overflow_is_an_error_inside_the_transaction_witness:
  "0 \<le> example_now \<and> example_now < datetime_span \<and>
   (\<forall>d. atomic_handle_noargs [''days'' \<mapsto> PyInt 999999] example_now True d =
      ([Connect, Begin, Rollback], d, Inl (CommandError
      ''--days specified is too large. Try something less than 99999 (about 270 years).''))) \<and>
   (\<exists>self d' out.
      atomic_handle_noargs Map.empty example_now True example_db =
        ([Connect, Begin, Commit], d', Inr (self, out)) \<and>
      cutoff self = example_now - 90 * us_per_day \<and> days self = 90)"
proof -
  have r: "0 \<le> example_now" "example_now < datetime_span"
    by (simp_all add: example_now_def datetime_span_def us_per_day_def)
  have a: "\<forall>d. atomic_handle_noargs [''days'' \<mapsto> PyInt 999999] example_now True d =
      ([Connect, Begin, Rollback], d, Inl (CommandError
      ''--days specified is too large. Try something less than 99999 (about 270 years).''))"
    using overflow_is_an_error_inside_the_transaction
      [OF r, where options = "[''days'' \<mapsto> PyInt 999999]"]
    by (simp add: get_def example_now_def us_per_day_def)
  have b: "\<exists>self d' out.
      atomic_handle_noargs Map.empty example_now True example_db =
        ([Connect, Begin, Commit], d', Inr (self, out)) \<and>
      cutoff self = example_now - 90 * us_per_day \<and> days self = 90"
    using overflow_is_an_error_inside_the_transaction
      [OF r, where options = Map.empty and d = example_db]
    by (auto simp add: get_def example_now_def us_per_day_def datetime_span_def)
  from r a b show ?thesis by simp
qed

text \<open>
  C6 as stated fails: the error is not raised before any storage access. With 999999
  days the connection has been opened and a transaction begun when the CommandError is
  raised, and on a database that cannot be reached the run ends with the connection's
  error instead.
\<close>

theorem overflow_error_counterexample:
  "fst (atomic_handle_noargs [''days'' \<mapsto> PyInt 999999] example_now True example_db) \<noteq> [] \<and>
   atomic_handle_noargs [''days'' \<mapsto> PyInt 999999] example_now False example_db =
     ([Connect], example_db, Inl OperationalError) \<and>
   atomic_handle_noargs [''days'' \<mapsto> PyInt 999999] example_now True example_db =
     ([Connect, Begin, Rollback], example_db, Inl (CommandError
       ''--days specified is too large. Try something less than 99999 (about 270 years).''))"
  by (simp add: atomic_handle_noargs_def handle_noargs_closed get_def timedelta_def
      datetime_sub_def Let_def example_now_def us_per_day_def datetime_span_def)

text \<open>
  C10, as amended. The number of days is not checked to be positive. If it is zero or
  negative and the clock's reading minus that many days is still a time that a
  datetime can hold, the run raises no error and its cutoff is at or after the clock's
  reading; then every record created before the clock's reading that is in no
  skipping status and is not the current or last update of a parent with a source
  reaches the deleting branch, and is gone from its table after a run that is not a
  dry run.
\<close>

theorem nonpositive_days_delete_everything_old:
  assumes "0 \<le> now" "now < datetime_span"
    and "py_int (get options ''days'' (PyInt 90)) \<le> 0"
    and "now - py_int (get options ''days'' (PyInt 90)) * us_per_day < datetime_span"
  shows
  "\<exists>self d' out.
     handle_noargs options now d = Inr (self, d', out) \<and>
     cutoff self = now - py_int (get options ''days'' (PyInt 90)) * us_per_day \<and>
     now \<le> cutoff self \<and>
     (\<forall>r. status r \<notin> {''pending'', ''waiting'', ''running''} \<and> created r < now \<longrightarrow>
        job_decision self r = Eligible \<and> ad_hoc_command_decision self r = Eligible \<and>
        management_job_decision self r = Eligible \<and> workflow_job_decision self r = Eligible \<and>
        (\<not> dry_run self \<longrightarrow>
           r \<notin> set (jobs (fst (cleanup_jobs self d))) \<and>
           r \<notin> set (ad_hoc_commands (fst (cleanup_ad_hoc_commands self d))) \<and>
           r \<notin> set (system_jobs (fst (cleanup_management_jobs self d))) \<and>
           r \<notin> set (workflow_jobs (fst (cleanup_workflow_jobs self d))))) \<and>
     (\<forall>n. status n \<noteq> ''pending'' \<and> created n < now \<longrightarrow>
        notification_decision self n = Eligible \<and>
        (\<not> dry_run self \<longrightarrow>
           n \<notin> set (notifications (fst (cleanup_notifications self d))))) \<and>
     (\<forall>pu. status pu \<notin> {''pending'', ''waiting'', ''running''} \<and>
        \<not> ((current_update (project pu) = Some (pk pu) \<or>
             last_update (project pu) = Some (pk pu)) \<and> scm_type (project pu) \<noteq> []) \<and>
        created pu < now \<longrightarrow>
        project_update_decision self pu = Eligible \<and>
        (\<not> dry_run self \<longrightarrow>
           pu \<notin> set (project_updates (fst (cleanup_project_updates self d))))) \<and>
     (\<forall>iu. status iu \<notin> {''pending'', ''waiting'', ''running''} \<and>
        \<not> ((current_update (inventory_source iu) = Some (pk iu) \<or>
             last_update (inventory_source iu) = Some (pk iu)) \<and>
            source (inventory_source iu) \<noteq> []) \<and>
        created iu < now \<longrightarrow>
        inventory_update_decision self iu = Eligible \<and>
        (\<not> dry_run self \<longrightarrow>
           iu \<notin> set (inventory_updates (fst (cleanup_inventory_updates self d)))))"
proof -
  define n where "n = py_int (get options ''days'' (PyInt 90))"
  define c where "c = now - n * us_per_day"
  define self where "self = \<lparr>days = n,
    dry_run = py_bool (get options ''dry_run'' (PyBool False)), cutoff = c\<rparr>"
  have le: "now \<le> c"
    using assms(3) by (simp add: c_def n_def us_per_day_def mult_le_0_iff)
  then have rng: "0 \<le> c \<and> c < datetime_span"
    using assms(1,4) by (simp add: c_def n_def)
  have cut: "Option.bind (timedelta n) (datetime_sub now) = Some c"
    using rng by (simp add: cutoff_in_range [OF assms(1,2)] c_def)
  obtain d' out where run: "handle_noargs options now d = Inr (self, d', out)"
    using cut by (simp add: handle_noargs_closed n_def [symmetric] self_def)
  have cs: "cutoff self = c" by (simp add: self_def)
  have rows: "job_decision self r = Eligible \<and> ad_hoc_command_decision self r = Eligible \<and>
      management_job_decision self r = Eligible \<and> workflow_job_decision self r = Eligible"
    if "status r \<notin> {''pending'', ''waiting'', ''running''}" "created r < now" for r
    using that le cs
    by (auto simp: job_decision_def ad_hoc_command_decision_def management_job_decision_def
        workflow_job_decision_def)
  have nt: "notification_decision self x = Eligible"
    if "status x \<noteq> ''pending''" "created x < now" for x
    using that le cs by (auto simp: notification_decision_def)
  have pu: "project_update_decision self pu = Eligible"
    if "status pu \<notin> {''pending'', ''waiting'', ''running''}"
      "\<not> ((current_update (project pu) = Some (pk pu) \<or>
           last_update (project pu) = Some (pk pu)) \<and> scm_type (project pu) \<noteq> [])"
      "created pu < now" for pu
    using that le cs by (auto simp: project_update_decision_def)
  have iu: "inventory_update_decision self iu = Eligible"
    if "status iu \<notin> {''pending'', ''waiting'', ''running''}"
      "\<not> ((current_update (inventory_source iu) = Some (pk iu) \<or>
           last_update (inventory_source iu) = Some (pk iu)) \<and>
          source (inventory_source iu) \<noteq> [])"
      "created iu < now" for iu
    using that le cs by (auto simp: inventory_update_decision_def)
  show ?thesis
  proof (intro exI conjI allI impI)
    show "handle_noargs options now d = Inr (self, d', out)" by (rule run)
    show "cutoff self = now - py_int (get options ''days'' (PyInt 90)) * us_per_day"
      by (simp add: cs c_def n_def)
    show "now \<le> cutoff self" using le cs by simp
  qed (use rows nt pu iu in \<open>auto simp: cleanup_jobs_removes cleanup_ad_hoc_commands_removes
      cleanup_management_jobs_removes cleanup_workflow_jobs_removes
      cleanup_notifications_removes cleanup_project_updates_removes
      cleanup_inventory_updates_removes\<close>)
qed


theorem nonpositive_days_delete_everything_old_witness:
  "0 \<le> example_now \<and> example_now < datetime_span \<and>
   py_int (get [''days'' \<mapsto> PyInt 0] ''days'' (PyInt 90)) \<le> 0 \<and>
   (\<exists>self d' out.
      handle_noargs [''days'' \<mapsto> PyInt 0] example_now example_db = Inr (self, d', out) \<and>
      cutoff self = example_now \<and>
      job_decision self job_recent = Eligible \<and>
      (\<not> dry_run self \<longrightarrow> job_recent \<notin> set (jobs (fst (cleanup_jobs self example_db)))) \<and>
      notification_decision self n_recent = Eligible \<and>
      project_update_decision self pu_boundary = Eligible \<and>
      inventory_update_decision self iu_recent = Eligible)"
proof -
  have r: "0 \<le> example_now" "example_now < datetime_span"
    by (simp_all add: example_now_def datetime_span_def us_per_day_def)
  have n: "py_int (get [''days'' \<mapsto> PyInt 0] ''days'' (PyInt 90)) \<le> 0"
    "example_now - py_int (get [''days'' \<mapsto> PyInt 0] ''days'' (PyInt 90)) * us_per_day
       < datetime_span"
    using r by (simp_all add: get_def)
  have pre: "status job_recent \<notin> {''pending'', ''waiting'', ''running''}"
    "created job_recent < example_now"
    "status n_recent \<noteq> ''pending''" "created n_recent < example_now"
    "status pu_boundary \<notin> {''pending'', ''waiting'', ''running''}"
    "\<not> ((current_update (project pu_boundary) = Some (pk pu_boundary) \<or>
         last_update (project pu_boundary) = Some (pk pu_boundary))
       \<and> scm_type (project pu_boundary) \<noteq> [])"
    "created pu_boundary < example_now"
    "status iu_recent \<notin> {''pending'', ''waiting'', ''running''}"
    "\<not> ((current_update (inventory_source iu_recent) = Some (pk iu_recent) \<or>
         last_update (inventory_source iu_recent) = Some (pk iu_recent))
       \<and> source (inventory_source iu_recent) \<noteq> [])"
    "created iu_recent < example_now"
    by (simp_all add: example_rows)
  obtain self d' out where
    run: "handle_noargs [''days'' \<mapsto> PyInt 0] example_now example_db = Inr (self, d', out)"
    and c: "cutoff self =
      example_now - py_int (get [''days'' \<mapsto> PyInt 0] ''days'' (PyInt 90)) * us_per_day"
    and rows: "\<forall>r. status r \<notin> {''pending'', ''waiting'', ''running''} \<and>
        created r < example_now \<longrightarrow>
        job_decision self r = Eligible \<and> ad_hoc_command_decision self r = Eligible \<and>
        management_job_decision self r = Eligible \<and> workflow_job_decision self r = Eligible \<and>
        (\<not> dry_run self \<longrightarrow>
           r \<notin> set (jobs (fst (cleanup_jobs self example_db))) \<and>
           r \<notin> set (ad_hoc_commands (fst (cleanup_ad_hoc_commands self example_db))) \<and>
           r \<notin> set (system_jobs (fst (cleanup_management_jobs self example_db))) \<and>
           r \<notin> set (workflow_jobs (fst (cleanup_workflow_jobs self example_db))))"
    and nt: "\<forall>n. status n \<noteq> ''pending'' \<and> created n < example_now \<longrightarrow>
        notification_decision self n = Eligible \<and>
        (\<not> dry_run self \<longrightarrow>
           n \<notin> set (notifications (fst (cleanup_notifications self example_db))))"
    and pu: "\<forall>pu. status pu \<notin> {''pending'', ''waiting'', ''running''} \<and>
        \<not> ((current_update (project pu) = Some (pk pu) \<or>
             last_update (project pu) = Some (pk pu)) \<and> scm_type (project pu) \<noteq> []) \<and>
        created pu < example_now \<longrightarrow>
        project_update_decision self pu = Eligible \<and>
        (\<not> dry_run self \<longrightarrow>
           pu \<notin> set (project_updates (fst (cleanup_project_updates self example_db))))"
    and iu: "\<forall>iu. status iu \<notin> {''pending'', ''waiting'', ''running''} \<and>
        \<not> ((current_update (inventory_source iu) = Some (pk iu) \<or>
             last_update (inventory_source iu) = Some (pk iu)) \<and>
            source (inventory_source iu) \<noteq> []) \<and>
        created iu < example_now \<longrightarrow>
        inventory_update_decision self iu = Eligible \<and>
        (\<not> dry_run self \<longrightarrow>
           iu \<notin> set (inventory_updates (fst (cleanup_inventory_updates self example_db))))"
    using nonpositive_days_delete_everything_old [OF r n, where d = example_db] by blast
  have c': "cutoff self = example_now"
    using c by (simp add: get_def)
  from rows pre(1,2) have j: "job_decision self job_recent = Eligible"
    "\<not> dry_run self \<longrightarrow> job_recent \<notin> set (jobs (fst (cleanup_jobs self example_db)))"
    by blast+
  from nt pre(3,4) have k: "notification_decision self n_recent = Eligible" by blast
  from pu pre(5,6,7) have l: "project_update_decision self pu_boundary = Eligible" by blast
  from iu pre(8,9,10) have m: "inventory_update_decision self iu_recent = Eligible" by blast
  from r n(1) run c' j k l m show ?thesis by blast
qed

text \<open>
  C10 as stated fails in two places. With \<open>-3000000\<close> days the cutoff would lie after
  the year 9999, and the run ends with the CommandError. With zero days the cutoff is
  the clock's reading, and a finished job created at that very instant is skipped as
  recent.
\<close>

theorem nonpositive_days_counterexample:
  "py_int (get [''days'' \<mapsto> PyInt (- 3000000)] ''days'' (PyInt 90)) \<le> 0 \<and>
   handle_noargs [''days'' \<mapsto> PyInt (- 3000000)] example_now example_db =
     Inl (CommandError
       ''--days specified is too large. Try something less than 99999 (about 270 years).'') \<and>
   \<not> isl (handle_noargs [''days'' \<mapsto> PyInt 0] example_now example_db) \<and>
   cutoff (fst (projr (handle_noargs [''days'' \<mapsto> PyInt 0] example_now example_db)))
     = example_now \<and>
   job_decision (fst (projr (handle_noargs [''days'' \<mapsto> PyInt 0] example_now example_db)))
     \<lparr>pk = 9, status = ''successful'', created = example_now\<rparr> = SkipRecent"
  by (simp add: handle_noargs_closed get_def timedelta_def datetime_sub_def Let_def
      example_now_def us_per_day_def datetime_span_def job_decision_def)

text \<open>
  C7, as amended. After a run that is not a dry run, over a database whose keys are
  unique, a second successful run with the same options at a later (or any) clock
  reading, with no record created or changed in between, leaves the database as the
  first run left it and reports, for each model, no deletion and the skipped count of
  the first run, provided no record of the database was created at or after the first
  run's cutoff and before the second run's cutoff. That holds in particular when the
  two cutoffs are equal.
\<close>

theorem second_run_deletes_nothing:
  assumes "handle_noargs options now d = Inr (self, d', out)"
    and "handle_noargs options now2 d' = Inr (self2, d'', out2)"
    and "\<not> dry_run self" and "unique_pks d"
    and "none_created_between (cutoff self) (cutoff self2) d"
  shows "d'' = d' \<and> out2 = map (\<lambda>s. s\<lparr>n_deleted := 0\<rparr>) out \<and>
    map n_deleted out2 = replicate (length out) 0 \<and>
    map n_skipped out2 = map n_skipped out \<and> map label out2 = map label out"
proof -
  let ?n = "py_int (get options ''days'' (PyInt 90))"
  let ?b = "py_bool (get options ''dry_run'' (PyBool False))"
  obtain c where cut: "Option.bind (timedelta ?n) (datetime_sub now) = Some c"
    using assms(1) by (cases "Option.bind (timedelta ?n) (datetime_sub now)")
      (simp_all add: handle_noargs_closed)
  obtain c2 where cut2: "Option.bind (timedelta ?n) (datetime_sub now2) = Some c2"
    using assms(2) by (cases "Option.bind (timedelta ?n) (datetime_sub now2)")
      (simp_all add: handle_noargs_closed)
  from assms(1) cut have self: "self = \<lparr>days = ?n, dry_run = ?b, cutoff = c\<rparr>"
    by (simp add: handle_noargs_closed)
  from assms(2) cut2 have self2: "self2 = \<lparr>days = ?n, dry_run = ?b, cutoff = c2\<rparr>"
    by (simp add: handle_noargs_closed)
  from assms(3) self have wet: "\<not> ?b" by simp
  from assms(1) cut wet
  have d': "d' = fold (\<lambda>m. sweep_model m self) (selected options) d"
    and out: "out = map (report self d) (selected options)"
    unfolding self by (auto simp: handle_noargs_closed)
  from assms(2) cut2 wet
  have d'': "d'' = fold (\<lambda>m. sweep_model m self2) (selected options) d'"
    and out2: "out2 = map (report self2 d') (selected options)"
    unfolding self2 by (auto simp: handle_noargs_closed)
  have clean: "\<forall>m \<in> set (selected options). eligible_count m self d' = 0"
    by (simp add: d' sweeps_clean selected_distinct)
  have between: "none_created_between (cutoff self) (cutoff self2) d'"
    unfolding d' using assms(5) by (rule sweeps_none_between)
  have clean2: "\<forall>m \<in> set (selected options). eligible_count m self2 d' = 0"
    using clean eligible_count_still_zero [OF between] by blast
  then have idle: "d'' = d'"
    unfolding d'' by (rule sweeps_idle)
  have "would_be (report self2 d' m) = would_be (report self d m)" for m
    by (simp add: report_def self self2)
  then have rep: "report self2 d' m = (report self d m)\<lparr>n_deleted := 0\<rparr>"
    if "m \<in> set (selected options)" for m
    using that clean2 sweeps_count [OF selected_distinct assms(4) that, of self]
    by (simp add: report_def d')
  have o: "out2 = map (\<lambda>s. s\<lparr>n_deleted := 0\<rparr>) out"
    unfolding out out2 map_map by (intro map_cong refl) (simp add: rep)
  have "map n_deleted out2 = replicate (length out) 0"
    unfolding o by (simp add: map_replicate_const comp_def)
  moreover have "map n_skipped out2 = map n_skipped out" "map label out2 = map label out"
    unfolding o by (simp_all add: comp_def)
  ultimately show ?thesis
    using idle o by simp
qed


theorem second_run_deletes_nothing_witness:
  "unique_pks example_db_off_boundary \<and>
   (\<exists>self d' out self2 d'' out2.
      handle_noargs Map.empty example_now example_db_off_boundary = Inr (self, d', out) \<and>
      handle_noargs Map.empty (example_now + 3600000000) d' = Inr (self2, d'', out2) \<and>
      \<not> dry_run self \<and> cutoff self < cutoff self2 \<and>
      none_created_between (cutoff self) (cutoff self2) example_db_off_boundary \<and>
      d'' = d' \<and> map n_deleted out2 = replicate (length out) 0 \<and>
      map n_skipped out2 = map n_skipped out)"
proof -
  have u: "unique_pks example_db_off_boundary"
    by (simp add: unique_pks_def example_db_off_boundary_def example_db_def example_rows)
  have cut: "Option.bind (timedelta (py_int (get Map.empty ''days'' (PyInt 90))))
      (datetime_sub example_now) = Some (days_ago 90)"
    "Option.bind (timedelta (py_int (get Map.empty ''days'' (PyInt 90))))
      (datetime_sub (example_now + 3600000000)) = Some (days_ago 90 + 3600000000)"
    by (simp_all add: get_def timedelta_def datetime_sub_def Let_def days_ago_def
        example_now_def us_per_day_def datetime_span_def)
  define self2 where "self2 = example_self\<lparr>cutoff := days_ago 90 + 3600000000\<rparr>"
  define d' where "d' = fold (\<lambda>m. sweep_model m example_self) (selected Map.empty)
    example_db_off_boundary"
  define out where "out = map (report example_self example_db_off_boundary)
    (selected Map.empty)"
  define d'' where "d'' = fold (\<lambda>m. sweep_model m self2) (selected Map.empty) d'"
  define out2 where "out2 = map (report self2 d') (selected Map.empty)"
  have run: "handle_noargs Map.empty example_now example_db_off_boundary =
      Inr (example_self, d', out)"
    unfolding handle_noargs_closed cut
    by (simp add: get_def example_self_def d'_def out_def)
  have run2: "handle_noargs Map.empty (example_now + 3600000000) d' = Inr (self2, d'', out2)"
    unfolding handle_noargs_closed cut
    by (simp add: get_def example_self_def self2_def d''_def out2_def)
  have wet: "\<not> dry_run example_self"
    by (simp add: example_self_def)
  have lt: "cutoff example_self < cutoff self2"
    by (simp add: example_self_def self2_def)
  have nb: "none_created_between (cutoff example_self) (cutoff self2) example_db_off_boundary"
    by (simp add: none_created_between_def example_db_off_boundary_def example_db_def
        example_self_def self2_def example_rows)
  have "handle_noargs Map.empty example_now example_db_off_boundary =
        Inr (example_self, d', out) \<and>
      handle_noargs Map.empty (example_now + 3600000000) d' = Inr (self2, d'', out2) \<and>
      \<not> dry_run example_self \<and> cutoff example_self < cutoff self2 \<and>
      none_created_between (cutoff example_self) (cutoff self2) example_db_off_boundary \<and>
      d'' = d' \<and> map n_deleted out2 = replicate (length out) 0 \<and>
      map n_skipped out2 = map n_skipped out"
    using run run2 wet lt nb
      second_run_deletes_nothing [OF run run2 wet u nb, THEN conjunct1]
      second_run_deletes_nothing [OF run run2 wet u nb, THEN conjunct2, THEN conjunct2,
        THEN conjunct1]
      second_run_deletes_nothing [OF run run2 wet u nb, THEN conjunct2, THEN conjunct2,
        THEN conjunct2, THEN conjunct1]
    by (intro conjI)
  then have "\<exists>self d' out self2 d'' out2.
      handle_noargs Map.empty example_now example_db_off_boundary = Inr (self, d', out) \<and>
      handle_noargs Map.empty (example_now + 3600000000) d' = Inr (self2, d'', out2) \<and>
      \<not> dry_run self \<and> cutoff self < cutoff self2 \<and>
      none_created_between (cutoff self) (cutoff self2) example_db_off_boundary \<and>
      d'' = d' \<and> map n_deleted out2 = replicate (length out) 0 \<and>
      map n_skipped out2 = map n_skipped out"
    by (intro exI [of _ example_self] exI [of _ d'] exI [of _ out] exI [of _ self2]
        exI [of _ d''] exI [of _ out2])
  with u show ?thesis
    by (rule conjI)
qed

text \<open>
  C7 as stated fails: the command reads the clock itself, so the second run's cutoff
  is later than the first's. On the example, a second run one microsecond after the
  first deletes the project update created exactly at the first cutoff, which the
  first run had skipped as recent, and skips two project updates where the first
  skipped three.
\<close>

theorem second_run_counterexample:
  "unique_pks example_db \<and> \<not> dry_run example_self \<and>
   handle_noargs Map.empty example_now example_db =
     Inr (example_self, example_db_after,
       [\<lparr>label = ''jobs'', would_be = False, n_deleted = 1, n_skipped = 2\<rparr>,
        \<lparr>label = ''ad hoc commands'', would_be = False, n_deleted = 1, n_skipped = 1\<rparr>,
        \<lparr>label = ''project updates'', would_be = False, n_deleted = 1, n_skipped = 3\<rparr>,
        \<lparr>label = ''inventory updates'', would_be = False, n_deleted = 1, n_skipped = 3\<rparr>,
        \<lparr>label = ''management jobs'', would_be = False, n_deleted = 1, n_skipped = 1\<rparr>,
        \<lparr>label = ''workflow jobs'', would_be = False, n_deleted = 1, n_skipped = 2\<rparr>,
        \<lparr>label = ''notifications'', would_be = False, n_deleted = 2, n_skipped = 2\<rparr>]) \<and>
   handle_noargs Map.empty (example_now + 1) example_db_after =
     Inr (example_self\<lparr>cutoff := days_ago 90 + 1\<rparr>,
       example_db_after\<lparr>project_updates := [pu_current, pu_waiting]\<rparr>,
       [\<lparr>label = ''jobs'', would_be = False, n_deleted = 0, n_skipped = 2\<rparr>,
        \<lparr>label = ''ad hoc commands'', would_be = False, n_deleted = 0, n_skipped = 1\<rparr>,
        \<lparr>label = ''project updates'', would_be = False, n_deleted = 1, n_skipped = 2\<rparr>,
        \<lparr>label = ''inventory updates'', would_be = False, n_deleted = 0, n_skipped = 3\<rparr>,
        \<lparr>label = ''management jobs'', would_be = False, n_deleted = 0, n_skipped = 1\<rparr>,
        \<lparr>label = ''workflow jobs'', would_be = False, n_deleted = 0, n_skipped = 2\<rparr>,
        \<lparr>label = ''notifications'', would_be = False, n_deleted = 0, n_skipped = 2\<rparr>])"
proof -
  have sel: "selected Map.empty = model_names"
    by (simp add: selected_def flagged_def get_def model_names_def)
  have cut: "Option.bind (timedelta (py_int (get Map.empty ''days'' (PyInt 90))))
      (datetime_sub example_now) = Some (days_ago 90)"
    "Option.bind (timedelta (py_int (get Map.empty ''days'' (PyInt 90))))
      (datetime_sub (example_now + 1)) = Some (days_ago 90 + 1)"
    by (simp_all add: get_def timedelta_def datetime_sub_def Let_def days_ago_def
        example_now_def us_per_day_def datetime_span_def)
  have a: "handle_noargs Map.empty example_now example_db =
     Inr (example_self, example_db_after,
       [\<lparr>label = ''jobs'', would_be = False, n_deleted = 1, n_skipped = 2\<rparr>,
        \<lparr>label = ''ad hoc commands'', would_be = False, n_deleted = 1, n_skipped = 1\<rparr>,
        \<lparr>label = ''project updates'', would_be = False, n_deleted = 1, n_skipped = 3\<rparr>,
        \<lparr>label = ''inventory updates'', would_be = False, n_deleted = 1, n_skipped = 3\<rparr>,
        \<lparr>label = ''management jobs'', would_be = False, n_deleted = 1, n_skipped = 1\<rparr>,
        \<lparr>label = ''workflow jobs'', would_be = False, n_deleted = 1, n_skipped = 2\<rparr>,
        \<lparr>label = ''notifications'', would_be = False, n_deleted = 2, n_skipped = 2\<rparr>])"
    unfolding handle_noargs_closed cut sel
    by (simp add: get_def model_names_def sweep_model_def purge_def report_def
        eligible_count_def record_count_def replace_underscores_def example_db_def
        example_db_after_def example_self_def example_rows decision_defs)
  have b: "handle_noargs Map.empty (example_now + 1) example_db_after =
     Inr (example_self\<lparr>cutoff := days_ago 90 + 1\<rparr>,
       example_db_after\<lparr>project_updates := [pu_current, pu_waiting]\<rparr>,
       [\<lparr>label = ''jobs'', would_be = False, n_deleted = 0, n_skipped = 2\<rparr>,
        \<lparr>label = ''ad hoc commands'', would_be = False, n_deleted = 0, n_skipped = 1\<rparr>,
        \<lparr>label = ''project updates'', would_be = False, n_deleted = 1, n_skipped = 2\<rparr>,
        \<lparr>label = ''inventory updates'', would_be = False, n_deleted = 0, n_skipped = 3\<rparr>,
        \<lparr>label = ''management jobs'', would_be = False, n_deleted = 0, n_skipped = 1\<rparr>,
        \<lparr>label = ''workflow jobs'', would_be = False, n_deleted = 0, n_skipped = 2\<rparr>,
        \<lparr>label = ''notifications'', would_be = False, n_deleted = 0, n_skipped = 2\<rparr>])"
    unfolding handle_noargs_closed cut sel
    by (simp add: get_def model_names_def sweep_model_def purge_def report_def
        eligible_count_def record_count_def replace_underscores_def
        example_db_after_def example_self_def example_rows decision_defs)
  have c: "\<not> dry_run example_self" by (simp add: example_self_def)
  from example_db_unique c a b show ?thesis by (intro conjI)
qed




text \<open>
C4. Every cleanup method returns the same counts in a dry run as in a run that is
  not one, and in a dry run it returns the database it was given: the deleting branch
  never applies the deletion when self.dry\_run is set. Likewise for the whole command: a
  dry run that succeeds leaves the database as it was, the run without the flag
  succeeds too, and the two runs report the same labels, skipped counts and deleted
  counts.
\<close>

theorem dry_run_counts_the_same_and_deletes_nothing:
  "(\<forall>c. cleanup_method m = Some c \<longrightarrow>
      fst (c (self\<lparr>dry_run := True\<rparr>) d) = d \<and>
      snd (c (self\<lparr>dry_run := True\<rparr>) d) = snd (c (self\<lparr>dry_run := False\<rparr>) d)) \<and>
   (\<forall>s1 d1 out1.
      handle_noargs (options(''dry_run'' \<mapsto> PyBool True)) now d = Inr (s1, d1, out1) \<longrightarrow>
      d1 = d \<and> dry_run s1 \<and>
      (\<exists>s2 d2 out2.
         handle_noargs (options(''dry_run'' \<mapsto> PyBool False)) now d = Inr (s2, d2, out2) \<and>
         \<not> dry_run s2 \<and>
         map (\<lambda>s. (label s, n_skipped s, n_deleted s)) out2 =
           map (\<lambda>s. (label s, n_skipped s, n_deleted s)) out1)) \<and>
   fst (tally (self\<lparr>dry_run := True\<rparr>) dec del (d, skipped, deleted)) = d"
proof -
  have meth: "fst (c (self\<lparr>dry_run := True\<rparr>) d) = d \<and>
      snd (c (self\<lparr>dry_run := True\<rparr>) d) = snd (c (self\<lparr>dry_run := False\<rparr>) d)"
    if "cleanup_method m = Some c" for c
    using eligible_count_cutoff [of "self\<lparr>dry_run := True\<rparr>" "self\<lparr>dry_run := False\<rparr>" m d]
    by (simp add: cleanup_method_closed [OF that])
  have run: "d1 = d \<and> dry_run s1 \<and>
      (\<exists>s2 d2 out2.
         handle_noargs (options(''dry_run'' \<mapsto> PyBool False)) now d = Inr (s2, d2, out2) \<and>
         \<not> dry_run s2 \<and>
         map (\<lambda>s. (label s, n_skipped s, n_deleted s)) out2 =
           map (\<lambda>s. (label s, n_skipped s, n_deleted s)) out1)"
    if r: "handle_noargs (options(''dry_run'' \<mapsto> PyBool True)) now d = Inr (s1, d1, out1)"
    for s1 d1 out1
  proof -
    let ?n = "py_int (get options ''days'' (PyInt 90))"
    obtain c where cut: "Option.bind (timedelta ?n) (datetime_sub now) = Some c"
      using r by (cases "Option.bind (timedelta ?n) (datetime_sub now)")
        (simp_all add: handle_noargs_closed days_dry_run)
    let ?s1 = "\<lparr>days = ?n, dry_run = True, cutoff = c\<rparr>"
    let ?s2 = "\<lparr>days = ?n, dry_run = False, cutoff = c\<rparr>"
    from r cut have a: "s1 = ?s1" "d1 = d" "out1 = map (report ?s1 d) (selected options)"
      by (auto simp: handle_noargs_closed days_dry_run selected_dry_run)
    have b: "handle_noargs (options(''dry_run'' \<mapsto> PyBool False)) now d =
        Inr (?s2, fold (\<lambda>m. sweep_model m ?s2) (selected options) d,
             map (report ?s2 d) (selected options))"
      using cut by (simp add: handle_noargs_closed days_dry_run selected_dry_run)
    have same: "map (\<lambda>s. (label s, n_skipped s, n_deleted s))
          (map (report ?s2 d) (selected options)) =
        map (\<lambda>s. (label s, n_skipped s, n_deleted s)) out1"
      unfolding a map_map
      by (intro map_cong refl)
        (simp add: report_def eligible_count_cutoff [of ?s2 ?s1])
    from a b same show ?thesis
      by simp
  qed
  have t: "fst (tally (self\<lparr>dry_run := True\<rparr>) dec del (d, skipped, deleted)) = d"
    by (simp add: tally_counts)
  from meth run t show ?thesis
    by (intro conjI allI impI) blast+
qed


theorem dry_run_counts_the_same_and_deletes_nothing_witness:
  "cleanup_method ''jobs'' = Some cleanup_jobs \<and>
   fst (cleanup_jobs (example_self\<lparr>dry_run := True\<rparr>) example_db) = example_db \<and>
   snd (cleanup_jobs (example_self\<lparr>dry_run := True\<rparr>) example_db) =
     snd (cleanup_jobs (example_self\<lparr>dry_run := False\<rparr>) example_db) \<and>
   (\<exists>s1 out1.
      handle_noargs [''dry_run'' \<mapsto> PyBool True] example_now example_db =
        Inr (s1, example_db, out1) \<and>
      (\<exists>s2 d2 out2.
         handle_noargs [''dry_run'' \<mapsto> PyBool False] example_now example_db =
           Inr (s2, d2, out2) \<and>
         map (\<lambda>s. (label s, n_skipped s, n_deleted s)) out2 =
           map (\<lambda>s. (label s, n_skipped s, n_deleted s)) out1))"
proof -
  have m: "cleanup_method ''jobs'' = Some cleanup_jobs"
    by (simp add: cleanup_method_def)
  note T = dry_run_counts_the_same_and_deletes_nothing [where m = "''jobs''"
      and self = example_self and d = example_db and options = Map.empty
      and now = example_now]
  from T [THEN conjunct1] m
  have a: "fst (cleanup_jobs (example_self\<lparr>dry_run := True\<rparr>) example_db) = example_db \<and>
      snd (cleanup_jobs (example_self\<lparr>dry_run := True\<rparr>) example_db) =
        snd (cleanup_jobs (example_self\<lparr>dry_run := False\<rparr>) example_db)"
    by blast
  have cut: "Option.bind (timedelta (py_int (get [''dry_run'' \<mapsto> PyBool True] ''days''
      (PyInt 90)))) (datetime_sub example_now) = Some (days_ago 90)"
    by (simp add: get_def timedelta_def datetime_sub_def Let_def days_ago_def
        example_now_def us_per_day_def datetime_span_def)
  obtain s1 d1 out1 where
    run: "handle_noargs [''dry_run'' \<mapsto> PyBool True] example_now example_db =
      Inr (s1, d1, out1)"
    using cut by (simp add: handle_noargs_closed)
  from T [THEN conjunct2, THEN conjunct1] run
  have b: "d1 = example_db \<and> dry_run s1 \<and>
      (\<exists>s2 d2 out2.
         handle_noargs [''dry_run'' \<mapsto> PyBool False] example_now example_db =
           Inr (s2, d2, out2) \<and>
         \<not> dry_run s2 \<and>
         map (\<lambda>s. (label s, n_skipped s, n_deleted s)) out2 =
           map (\<lambda>s. (label s, n_skipped s, n_deleted s)) out1)"
    by blast
  then have d1: "d1 = example_db" by simp
  from b obtain s2 d2 out2 where
    c: "handle_noargs [''dry_run'' \<mapsto> PyBool False] example_now example_db =
           Inr (s2, d2, out2)"
      "map (\<lambda>s. (label s, n_skipped s, n_deleted s)) out2 =
           map (\<lambda>s. (label s, n_skipped s, n_deleted s)) out1"
    by blast
  then have "\<exists>s2 d2 out2.
      handle_noargs [''dry_run'' \<mapsto> PyBool False] example_now example_db =
        Inr (s2, d2, out2) \<and>
      map (\<lambda>s. (label s, n_skipped s, n_deleted s)) out2 =
        map (\<lambda>s. (label s, n_skipped s, n_deleted s)) out1"
    by (intro exI [of _ s2] exI [of _ d2] exI [of _ out2]) simp
  with run d1 have e: "\<exists>s1 out1.
      handle_noargs [''dry_run'' \<mapsto> PyBool True] example_now example_db =
        Inr (s1, example_db, out1) \<and>
      (\<exists>s2 d2 out2.
         handle_noargs [''dry_run'' \<mapsto> PyBool False] example_now example_db =
           Inr (s2, d2, out2) \<and>
         map (\<lambda>s. (label s, n_skipped s, n_deleted s)) out2 =
           map (\<lambda>s. (label s, n_skipped s, n_deleted s)) out1)"
    by (intro exI [of _ s1] exI [of _ out1]) simp
  from m a e show ?thesis
    by (intro conjI) simp_all
qed

end
